theory Spec2Isabelle
  imports Complex_Main
begin

section \<open>Python strings\<close>

text \<open>
  A Python \<open>str\<close> is a sequence of Unicode code points. It is modelled as a list of
  natural numbers, so that the ASCII text typed on the keypad, the non-ASCII white space
  that \<open>str.strip\<close> removes and the two code points of the decorative suffix are all
  values of one type. \<open>str_of\<close> embeds an ASCII literal.
\<close>

type_synonym pystr = "nat list"

definition ord :: "char \<Rightarrow> nat" where
  "ord c = of_char c"

definition str_of :: "string \<Rightarrow> pystr" where
  "str_of s = map ord s"

text \<open>
  \<open>str.isspace\<close> for one code point: the characters whose bidirectional class is WS, B or
  S, or whose category is Zs. \<open>str.strip()\<close> with no argument removes them at both ends.
\<close>

definition py_isspace :: "nat \<Rightarrow> bool" where
  "py_isspace c =
     ((9 \<le> c \<and> c \<le> 13) \<or> (28 \<le> c \<and> c \<le> 32) \<or> c = 133 \<or> c = 160 \<or> c = 5760
      \<or> (8192 \<le> c \<and> c \<le> 8202) \<or> c = 8232 \<or> c = 8233 \<or> c = 8239 \<or> c = 8287
      \<or> c = 12288)"

definition py_strip :: "pystr \<Rightarrow> pystr" where
  "py_strip s = rev (dropWhile py_isspace (rev (dropWhile py_isspace s)))"

section \<open>The syntax trees of the \<open>ast\<close> module\<close>

text \<open>
  The node classes follow the abstract grammar of the \<open>ast\<close> module. \<open>safe_eval\<close> inspects
  \<open>Expression\<close>, \<open>BinOp\<close>, \<open>UnaryOp\<close> and \<open>Constant\<close>; every other class only ever reaches its
  last line, so the classes a calculator input can produce are listed and the rest are
  \<open>Other_node\<close> with the class name. \<open>Pow\<close> and \<open>Not\<close> are written \<open>Pow_op\<close> and \<open>Not_op\<close>.
\<close>

datatype operator =
  Add | Sub | Mult | MatMult | Div | Mod | Pow_op | LShift | RShift | BitOr | BitXor
  | BitAnd | FloorDiv

datatype unaryop = Invert | Not_op | UAdd | USub

datatype cmpop = Eq | NotEq | Lt | LtE | Gt | GtE | Is | IsNot | In | NotIn

datatype boolop = And | Or

text \<open>
  A Python \<open>float\<close> is a binary64 value. \<open>Fin q\<close> is the finite float whose exact value is
  the rational \<open>q\<close> (\<open>Fin 0\<close> is \<open>+0.0\<close>); the other constructors are \<open>-0.0\<close>, the
  infinities and not-a-number.
\<close>

datatype pyfloat = Fin rat | NegZero | PosInf | NegInf | NaN

text \<open>
  The value of a \<open>Constant\<close> node. An imaginary literal \<open>yj\<close> is the complex number with
  real part \<open>+0.0\<close> and imaginary part \<open>y\<close>.
\<close>

datatype pyconst =
  CInt int | CBool bool | CFloat pyfloat | CComplex pyfloat | CStr pystr | CBytes "nat list"
  | CNone | CEllipsis

datatype node =
  Expression node
  | BinOp node operator node
  | UnaryOp unaryop node
  | Constant pyconst
  | Name pystr
  | Call node "node list"
  | Compare node "cmpop list" "node list"
  | BoolOp boolop "node list"
  | List_node "node list"
  | Tuple_node "node list"
  | Attribute node pystr
  | Subscript node node
  | IfExp node node node
  | Other_node pystr

section \<open>Values and exceptions\<close>

text \<open>
  The values \<open>safe_eval\<close> can return: \<open>int\<close>, \<open>bool\<close> (a subclass of \<open>int\<close>), \<open>float\<close> and
  \<open>complex\<close> (real and imaginary part).
\<close>

datatype pyval = PyInt int | PyBool bool | PyFloat pyfloat | PyComplex pyfloat pyfloat

text \<open>
  An exception is its class and its message. The five \<open>ValueError\<close>s of the source are
  built from f-strings; their messages are kept structured, so that
  \<open>Invalid_expression e\<close> is the message \<open>f"Invalid expression: {e}"\<close>. \<open>Lib t\<close> is the text
  \<open>t\<close> of an exception raised inside the Python library.
\<close>

datatype exn_class =
  SyntaxError | ZeroDivisionError | OverflowError | TypeError | ValueError | Other_exception

datatype py_exn = Exn exn_class msg
and msg =
  Lib pystr
  | Operator_not_allowed operator
  | Unary_operator_not_allowed unaryop
  | Only_int_float_constants
  | Unsupported_expression node
  | Invalid_expression py_exn

fun class_of :: "py_exn \<Rightarrow> exn_class" where
  "class_of (Exn c m) = c"

fun message_of :: "py_exn \<Rightarrow> msg" where
  "message_of (Exn c m) = m"

text \<open>The functions of the \<open>operator\<close> module that \<open>ALLOWED_OPERATORS\<close> holds.\<close>

datatype pyfunc =
  operator_add | operator_sub | operator_mul | operator_truediv | operator_floordiv
  | operator_mod | operator_pow | operator_neg | operator_pos

section \<open>The Python library outside the modelled core\<close>

text \<open>
  The program calls the Python parser (\<open>ast.parse\<close>), the arithmetic of the \<open>operator\<close>
  module, \<open>str\<close>, \<open>float\<close> and \<open>ast.dump\<close>. Their behaviour is modelled concretely on a core
  (below) that is chosen so that every concrete answer is the one CPython 3.8 to 3.13
  gives: decimal literals, names, calls, list displays and the arithmetic operators for the
  parser; exact integer arithmetic and float arithmetic whose exact result is a binary64
  value for the operators. Whatever lies outside the core is a field of the record
  \<open>pyenv\<close>, and every theorem holds for every such record: nothing is assumed about the
  library there. \<open>int_max_str_digits\<close> is the interpreter's limit on the number of
  digits that \<open>str\<close> converts, \<open>sys.get_int_max_str_digits()\<close>: 4300 by default since
  CPython 3.11 (and in 3.8.14, 3.9.14 and 3.10.7), and 0 where there is no limit;
  \<open>digits_limit_text\<close> is the text of the \<open>ValueError\<close> raised beyond it. Resource
  exhaustion (\<open>MemoryError\<close>, \<open>RecursionError\<close>) is not modelled: integers are unbounded.
\<close>

record pyenv =
  parse_ext :: "pystr \<Rightarrow> py_exn + node"
  binop_ext :: "pyfunc \<Rightarrow> pyval \<Rightarrow> pyval \<Rightarrow> py_exn + pyval"
  unop_ext :: "pyfunc \<Rightarrow> pyval \<Rightarrow> py_exn + pyval"
  zero_division_text :: "pyfunc \<Rightarrow> pyval \<Rightarrow> pyval \<Rightarrow> pystr"
  repr_ext :: "pyval \<Rightarrow> pystr"
  operator_repr :: "operator \<Rightarrow> pystr"
  unaryop_repr :: "unaryop \<Rightarrow> pystr"
  ast_dump :: "node \<Rightarrow> pystr"
  float_accepts :: "pystr \<Rightarrow> bool"
  int_max_str_digits :: nat
  digits_limit_text :: pystr

subsection \<open>Tokens\<close>

datatype optok =
  PLUS | MINUS | STAR | SLASH | DOUBLESLASH | PERCENT | DOUBLESTAR | LPAR | RPAR | LSQB
  | RSQB | COMMA | AMPER | VBAR | CIRCUMFLEX | TILDE | AT

datatype token = LITERAL pyconst | NAME pystr | OP optok

definition is_digit :: "nat \<Rightarrow> bool" where
  "is_digit c = (48 \<le> c \<and> c \<le> 57)"

definition is_name_start :: "nat \<Rightarrow> bool" where
  "is_name_start c = ((65 \<le> c \<and> c \<le> 90) \<or> (97 \<le> c \<and> c \<le> 122) \<or> c = 95)"

definition is_name_char :: "nat \<Rightarrow> bool" where
  "is_name_char c = (is_name_start c \<or> is_digit c)"

fun decimal :: "nat \<Rightarrow> pystr \<Rightarrow> nat" where
  "decimal acc [] = acc"
| "decimal acc (c # cs) = decimal (10 * acc + (c - 48)) cs"

text \<open>
  A sufficient condition for a rational to be a binary64 value: it is a multiple of
  \<open>2\<^sup>-\<^sup>1\<^sup>0\<close> whose numerator over \<open>2\<^sup>1\<^sup>0\<close> has fewer than 54 bits.
\<close>

definition exact64 :: "rat \<Rightarrow> bool" where
  "exact64 q = (of_int \<lfloor>q * 1024\<rfloor> = q * 1024 \<and> \<bar>q * 1024\<bar> < 2 ^ 53)"

definition bad_follow :: "pystr \<Rightarrow> bool" where
  "bad_follow r = (case r of [] \<Rightarrow> False | c # cs \<Rightarrow> is_name_char c \<or> c = ord CHR ''.'')"

definition starts_with_point :: "pystr \<Rightarrow> bool" where
  "starts_with_point r = (case r of [] \<Rightarrow> False | c # cs \<Rightarrow> c = ord CHR ''.'')"

definition starts_with_digit :: "pystr \<Rightarrow> bool" where
  "starts_with_digit r = (case r of [] \<Rightarrow> False | c # cs \<Rightarrow> is_digit c)"

definition leading_zero :: "pystr \<Rightarrow> bool" where
  "leading_zero ds = (case ds of [] \<Rightarrow> False | c # cs \<Rightarrow> c = 48 \<and> 0 < length cs)"

text \<open>
  A decimal integer or a decimal float without exponent, at the head of the text. \<open>None\<close>
  where the literal is outside the core: followed by a letter, a digit separator or a
  second point, written with a leading zero, an integer of more than 4300 digits, or a
  float whose decimal value is not seen to be a binary64 value.
\<close>

definition lex_number :: "pystr \<Rightarrow> (pyconst \<times> pystr) option" where
  "lex_number s =
     (let ip = takeWhile is_digit s; r1 = dropWhile is_digit s in
      if leading_zero ip \<or> 4300 < length ip then None
      else if starts_with_point r1 then
        (let fp = takeWhile is_digit (tl r1); r2 = dropWhile is_digit (tl r1);
             q = (of_nat (decimal 0 (ip @ fp)) :: rat) / 10 ^ length fp in
         if ip = [] \<and> fp = [] then None
         else if bad_follow r2 then None
         else if exact64 q then Some (CFloat (Fin q), r2)
         else None)
      else if ip = [] \<or> bad_follow r1 then None
      else Some (CInt (int (decimal 0 ip)), r1))"

definition py_keywords :: "pystr list" where
  "py_keywords = map str_of
     [''and'', ''as'', ''assert'', ''async'', ''await'', ''break'', ''class'', ''continue'',
      ''def'', ''del'', ''elif'', ''else'', ''except'', ''finally'', ''for'', ''from'',
      ''global'', ''if'', ''import'', ''in'', ''is'', ''lambda'', ''nonlocal'', ''not'', ''or'',
      ''pass'', ''raise'', ''return'', ''try'', ''while'', ''with'', ''yield'']"

definition lex_name :: "pystr \<Rightarrow> token option" where
  "lex_name w =
     (if w = str_of ''True'' then Some (LITERAL (CBool True))
      else if w = str_of ''False'' then Some (LITERAL (CBool False))
      else if w = str_of ''None'' then Some (LITERAL CNone)
      else if List.member py_keywords w then None
      else Some (NAME w))"

definition lex_op :: "nat \<Rightarrow> pystr \<Rightarrow> (optok \<times> pystr) option" where
  "lex_op c cs =
     (if c = ord CHR ''*'' then
        (case cs of
           [] \<Rightarrow> Some (STAR, cs)
         | d # ds \<Rightarrow> if d = ord CHR ''*'' then Some (DOUBLESTAR, ds) else Some (STAR, cs))
      else if c = ord CHR ''/'' then
        (case cs of
           [] \<Rightarrow> Some (SLASH, cs)
         | d # ds \<Rightarrow> if d = ord CHR ''/'' then Some (DOUBLESLASH, ds) else Some (SLASH, cs))
      else if c = ord CHR ''+'' then Some (PLUS, cs)
      else if c = ord CHR ''-'' then Some (MINUS, cs)
      else if c = ord CHR ''%'' then Some (PERCENT, cs)
      else if c = ord CHR ''('' then Some (LPAR, cs)
      else if c = ord CHR '')'' then Some (RPAR, cs)
      else if c = ord CHR ''['' then Some (LSQB, cs)
      else if c = ord CHR '']'' then Some (RSQB, cs)
      else if c = ord CHR '','' then Some (COMMA, cs)
      else if c = ord CHR ''&'' then Some (AMPER, cs)
      else if c = ord CHR ''|'' then Some (VBAR, cs)
      else if c = ord CHR ''^'' then Some (CIRCUMFLEX, cs)
      else if c = ord CHR ''~'' then Some (TILDE, cs)
      else if c = ord CHR ''@'' then Some (AT, cs)
      else None)"

text \<open>
  The tokens of a one-line text over the core alphabet, blanks between tokens skipped.
  The first argument bounds the number of tokens read; \<open>None\<close> is "outside the core".
\<close>

fun lex :: "nat \<Rightarrow> pystr \<Rightarrow> token list option" where
  "lex n [] = Some []"
| "lex 0 (c # cs) = None"
| "lex (Suc n) (c # cs) =
     (if c = 32 then lex n cs
      else if is_digit c \<or> (c = ord CHR ''.'' \<and> starts_with_digit cs) then
        (case lex_number (c # cs) of
           None \<Rightarrow> None
         | Some (k, rest) \<Rightarrow> map_option ((#) (LITERAL k)) (lex n rest))
      else if is_name_start c then
        (case lex_name (takeWhile is_name_char (c # cs)) of
           None \<Rightarrow> None
         | Some t \<Rightarrow> map_option ((#) t) (lex n (dropWhile is_name_char (c # cs))))
      else
        (case lex_op c cs of
           None \<Rightarrow> None
         | Some (t, rest) \<Rightarrow> map_option ((#) (OP t)) (lex n rest)))"

subsection \<open>The core of the expression grammar\<close>

definition binop_of :: "optok \<Rightarrow> (operator \<times> nat) option" where
  "binop_of t =
     (case t of
        VBAR \<Rightarrow> Some (BitOr, 1)
      | CIRCUMFLEX \<Rightarrow> Some (BitXor, 2)
      | AMPER \<Rightarrow> Some (BitAnd, 3)
      | PLUS \<Rightarrow> Some (Add, 5)
      | MINUS \<Rightarrow> Some (Sub, 5)
      | STAR \<Rightarrow> Some (Mult, 6)
      | SLASH \<Rightarrow> Some (Div, 6)
      | DOUBLESLASH \<Rightarrow> Some (FloorDiv, 6)
      | PERCENT \<Rightarrow> Some (Mod, 6)
      | AT \<Rightarrow> Some (MatMult, 6)
      | _ \<Rightarrow> None)"

definition unaryop_of :: "optok \<Rightarrow> unaryop option" where
  "unaryop_of t =
     (case t of PLUS \<Rightarrow> Some UAdd | MINUS \<Rightarrow> Some USub | TILDE \<Rightarrow> Some Invert | _ \<Rightarrow> None)"

text \<open>
  Precedence climbing over the token list, after Python's grammar:
  \<^verbatim>\<open>
  bitor > bitxor > bitand > sum > term (left associative)
  factor:  ('+' | '-' | '~') factor | power
  power:   primary ['**' factor]
  primary: atom ( '(' [expression (',' expression)*] ')' )*
  atom:    NAME | NUMBER | 'True' | 'False' | 'None' | '(' expression ')'
           | '[' [expression (',' expression)*] ']'
  \<close>
  The mutually recursive parsing functions are one function over a goal: which
  nonterminal to read, with the tokens. The first argument is fuel. The result is the
  nodes read (one, except for a list of elements) and the tokens left, or \<open>None\<close> where
  the text is not in the core (which includes every text Python rejects).
\<close>

datatype goal =
  Expr_goal nat "token list"
  | Rest_goal nat node "token list"
  | Factor_goal "token list"
  | Power_goal "token list"
  | Trailers_goal node "token list"
  | Atom_goal "token list"
  | Elems_goal "token list"

definition starts_with :: "optok \<Rightarrow> token list \<Rightarrow> bool" where
  "starts_with t ts = (case ts of [] \<Rightarrow> False | x # r \<Rightarrow> x = OP t)"

primrec parse :: "nat \<Rightarrow> goal \<Rightarrow> (node list \<times> token list) option" where
  "parse 0 g = None"
| "parse (Suc n) g =
     (case g of
        Expr_goal p ts \<Rightarrow>
          (case parse n (Factor_goal ts) of
             Some ([lhs], r) \<Rightarrow> parse n (Rest_goal p lhs r)
           | _ \<Rightarrow> None)
      | Rest_goal p lhs ts \<Rightarrow>
          (case ts of
             OP t # r \<Rightarrow>
               (case binop_of t of
                  None \<Rightarrow> Some ([lhs], ts)
                | Some (op, q) \<Rightarrow>
                    if p \<le> q then
                      (case parse n (Expr_goal (Suc q) r) of
                         Some ([rhs], r') \<Rightarrow> parse n (Rest_goal p (BinOp lhs op rhs) r')
                       | _ \<Rightarrow> None)
                    else Some ([lhs], ts))
           | _ \<Rightarrow> Some ([lhs], ts))
      | Factor_goal ts \<Rightarrow>
          (case ts of
             OP t # r \<Rightarrow>
               (case unaryop_of t of
                  None \<Rightarrow> parse n (Power_goal ts)
                | Some u \<Rightarrow>
                    (case parse n (Factor_goal r) of
                       Some ([x], r') \<Rightarrow> Some ([UnaryOp u x], r')
                     | _ \<Rightarrow> None))
           | _ \<Rightarrow> parse n (Power_goal ts))
      | Power_goal ts \<Rightarrow>
          (case parse n (Atom_goal ts) of
             Some ([a], r) \<Rightarrow>
               (case parse n (Trailers_goal a r) of
                  Some ([b], r') \<Rightarrow>
                    if starts_with DOUBLESTAR r' then
                      (case parse n (Factor_goal (tl r')) of
                         Some ([e], r'') \<Rightarrow> Some ([BinOp b Pow_op e], r'')
                       | _ \<Rightarrow> None)
                    else Some ([b], r')
                | _ \<Rightarrow> None)
           | _ \<Rightarrow> None)
      | Trailers_goal a ts \<Rightarrow>
          (if starts_with LPAR ts then
             (if starts_with RPAR (tl ts) then parse n (Trailers_goal (Call a []) (tl (tl ts)))
              else
                (case parse n (Elems_goal (tl ts)) of
                   Some (args, r) \<Rightarrow>
                     if starts_with RPAR r then parse n (Trailers_goal (Call a args) (tl r))
                     else None
                 | None \<Rightarrow> None))
           else if starts_with LSQB ts then None
           else Some ([a], ts))
      | Atom_goal ts \<Rightarrow>
          (case ts of
             [] \<Rightarrow> None
           | LITERAL c # r \<Rightarrow> Some ([Constant c], r)
           | NAME x # r \<Rightarrow> Some ([Name x], r)
           | OP t # r \<Rightarrow>
               if t = LPAR then
                 (case parse n (Expr_goal 0 r) of
                    Some ([e], r') \<Rightarrow> if starts_with RPAR r' then Some ([e], tl r') else None
                  | _ \<Rightarrow> None)
               else if t = LSQB then
                 (if starts_with RSQB r then Some ([List_node []], tl r)
                  else
                    (case parse n (Elems_goal r) of
                       Some (es, r') \<Rightarrow>
                         if starts_with RSQB r' then Some ([List_node es], tl r') else None
                     | None \<Rightarrow> None))
               else None)
      | Elems_goal ts \<Rightarrow>
          (case parse n (Expr_goal 0 ts) of
             Some ([e], r) \<Rightarrow>
               if starts_with COMMA r then
                 (case parse n (Elems_goal (tl r)) of
                    Some (es, r') \<Rightarrow> Some (e # es, r')
                  | None \<Rightarrow> None)
               else Some ([e], r)
           | _ \<Rightarrow> None))"

text \<open>
  The body of the tree \<open>ast.parse(expr, mode='eval')\<close> returns, for a text in the core. A
  text that starts with a blank is outside (Python reports an unexpected indent), and so
  is a text of more than 100 characters (the nesting the parser accepts is bounded).
\<close>

definition starts_with_blank :: "pystr \<Rightarrow> bool" where
  "starts_with_blank s = (case s of [] \<Rightarrow> False | c # cs \<Rightarrow> c = 32)"

definition core_parse :: "pystr \<Rightarrow> node option" where
  "core_parse s =
     (if starts_with_blank s then None
      else if 100 < length s then None
      else
        (case lex (length s) s of
           None \<Rightarrow> None
         | Some ts \<Rightarrow>
             (case parse (8 * length ts + 8) (Expr_goal 0 ts) of
                Some ([e], []) \<Rightarrow> Some e
              | _ \<Rightarrow> None)))"

definition ast_parse :: "pyenv \<Rightarrow> pystr \<Rightarrow> py_exn + node" where
  "ast_parse E s =
     (case core_parse s of
        Some body \<Rightarrow> Inr (Expression body)
      | None \<Rightarrow> parse_ext E s)"

section \<open>The arithmetic of the \<open>operator\<close> module\<close>

text \<open>
  \<open>bool\<close> is a subclass of \<open>int\<close>: in arithmetic \<open>True\<close> is 1 and \<open>False\<close> is 0, and the
  result is an \<open>int\<close>.
\<close>

definition as_int :: "pyval \<Rightarrow> int option" where
  "as_int v =
     (case v of
        PyInt n \<Rightarrow> Some n
      | PyBool b \<Rightarrow> Some (if b then 1 else 0)
      | _ \<Rightarrow> None)"

text \<open>
  The conversion of an operand to \<open>float\<close> when the other operand is one: an integer
  converts exactly where it is seen to be a binary64 value (otherwise Python rounds or
  raises \<open>OverflowError\<close>, outside the core).
\<close>

definition as_float :: "pyval \<Rightarrow> pyfloat option" where
  "as_float v =
     (case v of
        PyFloat x \<Rightarrow> Some x
      | PyComplex x y \<Rightarrow> None
      | _ \<Rightarrow>
          (case as_int v of
             None \<Rightarrow> None
           | Some n \<Rightarrow> if exact64 (of_int n) then Some (Fin (of_int n)) else None))"

datatype core_result = Value pyval | Zero_division

text \<open>
  A float result is concrete where the exact result is a non-zero binary64 value: the
  operation is correctly rounded, so that is what it returns. A zero result (whose sign
  depends on the operands) and an inexact one are outside the core.
\<close>

definition exact_float :: "rat \<Rightarrow> core_result option" where
  "exact_float r = (if r = 0 then None else if exact64 r then Some (Value (PyFloat (Fin r))) else None)"

definition int_op :: "pyfunc \<Rightarrow> int \<Rightarrow> int \<Rightarrow> core_result option" where
  "int_op f a b =
     (case f of
        operator_add \<Rightarrow> Some (Value (PyInt (a + b)))
      | operator_sub \<Rightarrow> Some (Value (PyInt (a - b)))
      | operator_mul \<Rightarrow> Some (Value (PyInt (a * b)))
      | operator_truediv \<Rightarrow>
          if b = 0 then Some Zero_division else exact_float (of_int a / of_int b)
      | operator_floordiv \<Rightarrow>
          if b = 0 then Some Zero_division else Some (Value (PyInt (a div b)))
      | operator_mod \<Rightarrow>
          if b = 0 then Some Zero_division else Some (Value (PyInt (a mod b)))
      | operator_pow \<Rightarrow> if 0 \<le> b then Some (Value (PyInt (a ^ nat b))) else None
      | _ \<Rightarrow> None)"

definition is_zero :: "pyfloat \<Rightarrow> bool" where
  "is_zero y = (y = Fin 0 \<or> y = NegZero)"

definition divides :: "pyfunc \<Rightarrow> bool" where
  "divides f = (f = operator_truediv \<or> f = operator_floordiv \<or> f = operator_mod)"

definition float_op :: "pyfunc \<Rightarrow> pyfloat \<Rightarrow> pyfloat \<Rightarrow> core_result option" where
  "float_op f x y =
     (if divides f \<and> is_zero y then Some Zero_division
      else
        (case (x, y) of
           (Fin a, Fin b) \<Rightarrow>
             (case f of
                operator_add \<Rightarrow> exact_float (a + b)
              | operator_sub \<Rightarrow> exact_float (a - b)
              | operator_mul \<Rightarrow> exact_float (a * b)
              | operator_truediv \<Rightarrow> exact_float (a / b)
              | _ \<Rightarrow> None)
         | _ \<Rightarrow> None))"

definition core_binop :: "pyfunc \<Rightarrow> pyval \<Rightarrow> pyval \<Rightarrow> core_result option" where
  "core_binop f left right =
     (case (as_int left, as_int right) of
        (Some a, Some b) \<Rightarrow> int_op f a b
      | _ \<Rightarrow>
          (case (as_float left, as_float right) of
             (Some x, Some y) \<Rightarrow> float_op f x y
           | _ \<Rightarrow> None))"

text \<open>A call \<open>f(left, right)\<close> of a function of the \<open>operator\<close> module.\<close>

definition call2 :: "pyenv \<Rightarrow> pyfunc \<Rightarrow> pyval \<Rightarrow> pyval \<Rightarrow> py_exn + pyval" where
  "call2 E f left right =
     (case core_binop f left right of
        Some (Value v) \<Rightarrow> Inr v
      | Some Zero_division \<Rightarrow>
          Inl (Exn ZeroDivisionError (Lib (zero_division_text E f left right)))
      | None \<Rightarrow> binop_ext E f left right)"

definition float_neg :: "pyfloat \<Rightarrow> pyfloat" where
  "float_neg x =
     (case x of
        Fin q \<Rightarrow> if q = 0 then NegZero else Fin (- q)
      | NegZero \<Rightarrow> Fin 0
      | PosInf \<Rightarrow> NegInf
      | NegInf \<Rightarrow> PosInf
      | NaN \<Rightarrow> NaN)"

definition core_unop :: "pyfunc \<Rightarrow> pyval \<Rightarrow> pyval option" where
  "core_unop f operand =
     (case f of
        operator_neg \<Rightarrow>
          (case operand of
             PyFloat x \<Rightarrow> Some (PyFloat (float_neg x))
           | PyComplex x y \<Rightarrow> Some (PyComplex (float_neg x) (float_neg y))
           | _ \<Rightarrow> map_option (\<lambda>n. PyInt (- n)) (as_int operand))
      | operator_pos \<Rightarrow>
          (case operand of
             PyFloat x \<Rightarrow> Some operand
           | PyComplex x y \<Rightarrow> Some operand
           | _ \<Rightarrow> map_option PyInt (as_int operand))
      | _ \<Rightarrow> None)"

text \<open>A call \<open>f(operand)\<close>.\<close>

definition call1 :: "pyenv \<Rightarrow> pyfunc \<Rightarrow> pyval \<Rightarrow> py_exn + pyval" where
  "call1 E f operand =
     (case core_unop f operand of
        Some v \<Rightarrow> Inr v
      | None \<Rightarrow> unop_ext E f operand)"

section \<open>The evaluator\<close>

text \<open>
  \<open>ALLOWED_OPERATORS\<close> is one dictionary from operator classes, binary and unary, to
  functions; \<open>type(node.op)\<close> is its key.
\<close>

datatype op_type = Binary operator | Unary unaryop

definition ALLOWED_OPERATORS :: "(op_type \<times> pyfunc) list" where
  "ALLOWED_OPERATORS =
     [(Binary Add, operator_add),
      (Binary Sub, operator_sub),
      (Binary Mult, operator_mul),
      (Binary Div, operator_truediv),
      (Binary FloorDiv, operator_floordiv),
      (Binary Mod, operator_mod),
      (Binary Pow_op, operator_pow),
      (Unary USub, operator_neg),
      (Unary UAdd, operator_pos)]"

text \<open>
  \<open>isinstance(node, ast.Num)\<close> with \<open>node.n\<close>: since Python 3.8 \<open>ast.Num\<close> is a deprecated
  alias whose instances are the \<open>Constant\<close> nodes holding an \<open>int\<close>, a \<open>float\<close> or a
  \<open>complex\<close> that is not a \<open>bool\<close>.
\<close>

definition ast_Num :: "pyconst \<Rightarrow> pyval option" where
  "ast_Num c =
     (case c of
        CInt n \<Rightarrow> Some (PyInt n)
      | CFloat x \<Rightarrow> Some (PyFloat x)
      | CComplex y \<Rightarrow> Some (PyComplex (Fin 0) y)
      | _ \<Rightarrow> None)"

text \<open>\<open>isinstance(node.value, (int, float))\<close> with \<open>node.value\<close>; a \<open>bool\<close> is an \<open>int\<close>.\<close>

definition int_or_float :: "pyconst \<Rightarrow> pyval option" where
  "int_or_float c =
     (case c of
        CInt n \<Rightarrow> Some (PyInt n)
      | CBool b \<Rightarrow> Some (PyBool b)
      | CFloat x \<Rightarrow> Some (PyFloat x)
      | _ \<Rightarrow> None)"

fun safe_eval :: "pyenv \<Rightarrow> node \<Rightarrow> py_exn + pyval" where
  "safe_eval E (Expression body) = safe_eval E body"
| "safe_eval E (BinOp l op r) =
     (case safe_eval E l of
        Inl e \<Rightarrow> Inl e
      | Inr left \<Rightarrow>
          (case safe_eval E r of
             Inl e \<Rightarrow> Inl e
           | Inr right \<Rightarrow>
               (case map_of ALLOWED_OPERATORS (Binary op) of
                  Some f \<Rightarrow> call2 E f left right
                | None \<Rightarrow> Inl (Exn ValueError (Operator_not_allowed op)))))"
| "safe_eval E (UnaryOp op x) =
     (case safe_eval E x of
        Inl e \<Rightarrow> Inl e
      | Inr operand \<Rightarrow>
          (case map_of ALLOWED_OPERATORS (Unary op) of
             Some f \<Rightarrow> call1 E f operand
           | None \<Rightarrow> Inl (Exn ValueError (Unary_operator_not_allowed op))))"
| "safe_eval E (Constant c) =
     (case ast_Num c of
        Some n \<Rightarrow> Inr n
      | None \<Rightarrow>
          (case int_or_float c of
             Some v \<Rightarrow> Inr v
           | None \<Rightarrow> Inl (Exn ValueError Only_int_float_constants)))"
| "safe_eval E n = Inl (Exn ValueError (Unsupported_expression n))"

text \<open>
  \<open>evaluate_expression\<close>: the two exact texts first, then the \<open>try\<close> block, here
  \<open>normal_evaluation\<close>: parse and evaluate, every exception of either step replaced by a
  \<open>ValueError\<close> carrying its text.
\<close>

definition normal_evaluation :: "pyenv \<Rightarrow> pystr \<Rightarrow> py_exn + pyval" where
  "normal_evaluation E expr =
     (case ast_parse E expr of
        Inl e \<Rightarrow> Inl (Exn ValueError (Invalid_expression e))
      | Inr parsed \<Rightarrow>
          (case safe_eval E parsed of
             Inl e \<Rightarrow> Inl (Exn ValueError (Invalid_expression e))
           | Inr v \<Rightarrow> Inr v))"

definition evaluate_expression :: "pyenv \<Rightarrow> pystr \<Rightarrow> py_exn + pyval" where
  "evaluate_expression E expr =
     (if py_strip expr = str_of ''2 + 2'' \<or> py_strip expr = str_of ''2+2'' then Inr (PyInt 5)
      else normal_evaluation E expr)"

section \<open>Texts shown to the user\<close>

text \<open>
  \<open>str\<close> of a value: decimal digits for an \<open>int\<close>, \<open>True\<close> or \<open>False\<close> for a \<open>bool\<close>; the
  \<open>repr\<close> of a \<open>float\<close> or \<open>complex\<close> is left to the library. \<open>str\<close> of an \<open>int\<close> raises
  \<open>ValueError\<close> when the interpreter has a limit and the integer has more digits than
  the limit, that is, when its absolute value is at least ten to the power of the limit.
\<close>

function nat_str :: "nat \<Rightarrow> pystr" where
  "nat_str n = (if n < 10 then [48 + n] else nat_str (n div 10) @ [48 + n mod 10])"
  by pat_completeness auto
termination
  by (relation "measure id") auto

declare nat_str.simps [simp del]

definition int_str :: "int \<Rightarrow> pystr" where
  "int_str n = (if n < 0 then ord CHR ''-'' # nat_str (nat (- n)) else nat_str (nat n))"

definition exceeds_digits :: "nat \<Rightarrow> int \<Rightarrow> bool" where
  "exceeds_digits limit n = (0 < limit \<and> 10 ^ limit \<le> \<bar>n\<bar>)"

definition py_str :: "pyenv \<Rightarrow> pyval \<Rightarrow> py_exn + pystr" where
  "py_str E v =
     (case v of
        PyInt n \<Rightarrow>
          if exceeds_digits (int_max_str_digits E) n
          then Inl (Exn ValueError (Lib (digits_limit_text E)))
          else Inr (int_str n)
      | PyBool b \<Rightarrow> Inr (if b then str_of ''True'' else str_of ''False'')
      | _ \<Rightarrow> Inr (repr_ext E v))"

text \<open>\<open>str(e)\<close> of an exception: its message.\<close>

fun exn_str :: "pyenv \<Rightarrow> py_exn \<Rightarrow> pystr"
and msg_str :: "pyenv \<Rightarrow> msg \<Rightarrow> pystr" where
  "exn_str E (Exn c m) = msg_str E m"
| "msg_str E (Lib t) = t"
| "msg_str E (Operator_not_allowed op) =
     str_of ''Operator '' @ operator_repr E op @ str_of '' not allowed''"
| "msg_str E (Unary_operator_not_allowed op) =
     str_of ''Unary operator '' @ unaryop_repr E op @ str_of '' not allowed''"
| "msg_str E Only_int_float_constants = str_of ''Only int/float constants are allowed''"
| "msg_str E (Unsupported_expression n) = str_of ''Unsupported expression: '' @ ast_dump E n"
| "msg_str E (Invalid_expression e) = str_of ''Invalid expression: '' @ exn_str E e"

text \<open>\<open>res == 5\<close>: numeric equality across \<open>int\<close>, \<open>bool\<close>, \<open>float\<close> and \<open>complex\<close>.\<close>

definition equals_5 :: "pyval \<Rightarrow> bool" where
  "equals_5 res =
     (case res of
        PyInt n \<Rightarrow> n = 5
      | PyBool b \<Rightarrow> False
      | PyFloat x \<Rightarrow> x = Fin 5
      | PyComplex x y \<Rightarrow> x = Fin 5 \<and> is_zero y)"

text \<open>
  The decorative suffix of \<open>f"{res} ..."\<close>: a blank, U+1F44D (thumbs up) and U+1F3FB
  (its skin tone modifier).
\<close>

definition thumbs_up :: pystr where
  "thumbs_up = [32, 128077, 127995]"

definition MESSAGES :: "pystr list" where
  "MESSAGES = map str_of
     [''calculating...'',
      ''Going physical with codes...'',
      ''Asking Calculator God...'',
      ''Consulting with aliens...'',
      ''Counting number of stars in the galaxy...'',
      ''Asking your mom for help...'',
      ''Oops! Your mom is busy making breakfast...'',
      ''Checking Meesho discounts...'',
      ''Almost there...'']"

section \<open>The two graphical sequencers\<close>

text \<open>
  A widget is \<open>Normal\<close> or \<open>Disabled\<close>. The calls a sequencer makes on the outside world
  are recorded in order: \<open>Display t b\<close> is \<open>append_display(t, bold=b)\<close>, \<open>Disp_set t\<close> is
  \<open>disp_var.set(t)\<close>, \<open>After ms\<close> is \<open>root.after(ms, ...)\<close> and \<open>Evaluate e\<close> is the call
  \<open>evaluate_expression(e)\<close>. \<open>Callback_error e\<close> records that the exception \<open>e\<close> left a
  timer callback: Tk reports it and goes on with its event loop, and what the callback
  had not yet done is never done.
\<close>

datatype wstate = Normal | Disabled

datatype event =
  Display pystr bool | Disp_set pystr | After nat | Evaluate pystr | Callback_error py_exn

text \<open>
  The closure \<open>step\<close> of one reveal: the expression it captured and its dictionary
  \<open>state = {'i': ..., 'phase': ...}\<close>. The list of messages is a parameter of the step
  functions; the program passes \<open>MESSAGES\<close>.
\<close>

record reveal =
  rv_expr :: pystr
  rv_i :: nat
  rv_phase :: nat

subsection \<open>The keypad window (\<open>run_keypad_gui\<close>)\<close>

record keypad =
  disp_var :: pystr
  memory_val :: "pystr option"
  buttons :: "wstate list"
  kp_events :: "event list"

definition disp_set :: "pystr \<Rightarrow> keypad \<Rightarrow> keypad" where
  "disp_set t g = g\<lparr>disp_var := t, kp_events := kp_events g @ [Disp_set t]\<rparr>"

definition kp_after :: "nat \<Rightarrow> keypad \<Rightarrow> keypad" where
  "kp_after ms g = g\<lparr>kp_events := kp_events g @ [After ms]\<rparr>"

definition set_buttons :: "wstate \<Rightarrow> keypad \<Rightarrow> keypad" where
  "set_buttons st g = g\<lparr>buttons := map (\<lambda>b. st) (buttons g)\<rparr>"

definition kp_callback_error :: "py_exn \<Rightarrow> keypad \<Rightarrow> keypad" where
  "kp_callback_error e g = g\<lparr>kp_events := kp_events g @ [Callback_error e]\<rparr>"

text \<open>
  \<open>finish\<close>: the call of the evaluator is inside the \<open>try\<close>; the \<open>else\<close> branch, which
  converts the result to text, is not, so an exception of that conversion leaves
  \<open>finish\<close> before \<open>disp_var.set\<close> and \<open>set_buttons('normal')\<close>.
\<close>

definition finish :: "pyenv \<Rightarrow> pystr \<Rightarrow> keypad \<Rightarrow> keypad" where
  "finish E expr g =
     (let g1 = g\<lparr>kp_events := kp_events g @ [Evaluate expr]\<rparr> in
      case evaluate_expression E expr of
        Inl e \<Rightarrow> set_buttons Normal (disp_set (exn_str E e) g1)
      | Inr res \<Rightarrow>
          if equals_5 res then
            (case py_str E res of
               Inl err \<Rightarrow> kp_callback_error err g1
             | Inr t \<Rightarrow> set_buttons Normal (disp_set (t @ thumbs_up) g1))
          else
            (case py_str E res of
               Inl err \<Rightarrow> kp_callback_error err g1
             | Inr t \<Rightarrow> set_buttons Normal (disp_set t g1)))"

text \<open>
  One call of \<open>step\<close>. The result is the window and, where \<open>step\<close> has scheduled itself
  again with \<open>root.after(2000, step)\<close>, the closure with its updated dictionary.
\<close>

definition kp_step :: "pyenv \<Rightarrow> pystr list \<Rightarrow> reveal \<Rightarrow> keypad \<Rightarrow> keypad \<times> reveal option" where
  "kp_step E M r g =
     (let i = rv_i r; phase = rv_phase r in
      if phase = 0 then
        (if i < length M then
           (kp_after 2000 (disp_set (M ! i) g), Some (r\<lparr>rv_phase := 1\<rparr>))
         else (finish E (rv_expr r) g, None))
      else
        (let j = i + 1 in
         if j < length M then
           (kp_after 2000 (disp_set (M ! j) g), Some (r\<lparr>rv_i := j + 1, rv_phase := 0\<rparr>))
         else (finish E (rv_expr r) g, None)))"

text \<open>
  The timer loop: \<open>step\<close> runs again each time its timer fires, until a call does not
  schedule another one.
\<close>

definition remaining :: "pystr list \<Rightarrow> reveal \<Rightarrow> nat" where
  "remaining M r = 2 * (length M - rv_i r) + (if rv_phase r = 0 then 1 else 0)"

function kp_run :: "pyenv \<Rightarrow> pystr list \<Rightarrow> reveal \<Rightarrow> keypad \<Rightarrow> keypad" where
  "kp_run E M r g =
     (case kp_step E M r g of
        (g', None) \<Rightarrow> g'
      | (g', Some r') \<Rightarrow> kp_run E M r' g')"
  by pat_completeness auto
termination
  by (relation "measure (\<lambda>(E, M, r, g). remaining M r)")
     (auto simp: kp_step_def remaining_def Let_def split: if_splits)

declare kp_run.simps [simp del]

definition run_sequence_then_eval :: "pyenv \<Rightarrow> pystr list \<Rightarrow> pystr \<Rightarrow> keypad \<Rightarrow> keypad" where
  "run_sequence_then_eval E M expr g =
     kp_run E M \<lparr>rv_expr = expr, rv_i = 0, rv_phase = 0\<rparr> (kp_after 0 (set_buttons Disabled g))"

subsection \<open>The two-entry window (\<open>run_gui\<close>)\<close>

text \<open>
  The four operator buttons, the two entries with their texts, the Calculate button, the
  display label with its font, and the dictionary \<open>selected\<close>: its two keys are set
  together by \<open>select_op\<close>, so it is the selected button, whose operator text is \<open>op_text\<close>.
  The fonts exist whenever the window does.
\<close>

datatype opbtn = plus_btn | minus_btn | mul_btn | div_btn

definition op_text :: "opbtn \<Rightarrow> pystr" where
  "op_text b =
     (case b of
        plus_btn \<Rightarrow> str_of ''+''
      | minus_btn \<Rightarrow> str_of ''-''
      | mul_btn \<Rightarrow> str_of ''*''
      | div_btn \<Rightarrow> str_of ''/'')"

record gui =
  display_text :: pystr
  display_bold :: bool
  btn_calc :: wstate
  entry_a :: wstate
  entry_b :: wstate
  op_btn :: "opbtn \<Rightarrow> wstate"
  selected :: "opbtn option"
  a_text :: pystr
  b_text :: pystr
  gui_events :: "event list"

definition append_display :: "pystr \<Rightarrow> bool \<Rightarrow> gui \<Rightarrow> gui" where
  "append_display line bold g =
     g\<lparr>display_text := line, display_bold := bold, gui_events := gui_events g @ [Display line bold]\<rparr>"

definition gui_after :: "nat \<Rightarrow> gui \<Rightarrow> gui" where
  "gui_after ms g = g\<lparr>gui_events := gui_events g @ [After ms]\<rparr>"

text \<open>
  \<open>select_op\<close>: the \<open>relief\<close> changes are not modelled (a failure to apply them is
  ignored by the source).
\<close>

definition select_op :: "opbtn \<Rightarrow> gui \<Rightarrow> gui" where
  "select_op b g = g\<lparr>selected := Some b\<rparr>"

text \<open>A click on an operator button runs its command unless the button is disabled.\<close>

definition click_op :: "opbtn \<Rightarrow> gui \<Rightarrow> gui" where
  "click_op b g = (if op_btn g b = Disabled then g else select_op b g)"

definition set_selected_btn :: "wstate \<Rightarrow> gui \<Rightarrow> gui" where
  "set_selected_btn st g =
     (case selected g of
        None \<Rightarrow> g
      | Some b \<Rightarrow> g\<lparr>op_btn := (op_btn g)(b := st)\<rparr>)"

definition gui_callback_error :: "py_exn \<Rightarrow> gui \<Rightarrow> gui" where
  "gui_callback_error e g = g\<lparr>gui_events := gui_events g @ [Callback_error e]\<rparr>"

definition enable_controls :: "gui \<Rightarrow> gui" where
  "enable_controls g =
     set_selected_btn Normal (g\<lparr>btn_calc := Normal, entry_a := Normal, entry_b := Normal\<rparr>)"

text \<open>
  The last branch of \<open>step\<close>, written twice in the source: evaluate, show, enable. As in
  \<open>finish\<close>, the conversion of the result to text is in the \<open>else\<close> of the \<open>try\<close>: an
  exception of it leaves \<open>step\<close> before the display and before the controls are enabled.
\<close>

definition gui_finish :: "pyenv \<Rightarrow> pystr \<Rightarrow> gui \<Rightarrow> gui" where
  "gui_finish E expr g =
     (let g1 = g\<lparr>gui_events := gui_events g @ [Evaluate expr]\<rparr> in
      case evaluate_expression E expr of
        Inl e \<Rightarrow> enable_controls (append_display (exn_str E e) True g1)
      | Inr res \<Rightarrow>
          if equals_5 res then
            (case py_str E res of
               Inl err \<Rightarrow> gui_callback_error err g1
             | Inr t \<Rightarrow> enable_controls (append_display (t @ thumbs_up) True g1))
          else
            (case py_str E res of
               Inl err \<Rightarrow> gui_callback_error err g1
             | Inr t \<Rightarrow> enable_controls (append_display t True g1)))"

definition gui_step :: "pyenv \<Rightarrow> pystr list \<Rightarrow> reveal \<Rightarrow> gui \<Rightarrow> gui \<times> reveal option" where
  "gui_step E M r g =
     (let i = rv_i r; phase = rv_phase r in
      if phase = 0 then
        (if i < length M then
           (gui_after 2000 (append_display (M ! i) False g), Some (r\<lparr>rv_phase := 1\<rparr>))
         else (gui_finish E (rv_expr r) g, None))
      else
        (let j = i + 1 in
         if j < length M then
           (gui_after 2000 (append_display (M ! j) True g),
            Some (r\<lparr>rv_i := j + 1, rv_phase := 0\<rparr>))
         else (gui_finish E (rv_expr r) g, None)))"

function gui_run :: "pyenv \<Rightarrow> pystr list \<Rightarrow> reveal \<Rightarrow> gui \<Rightarrow> gui" where
  "gui_run E M r g =
     (case gui_step E M r g of
        (g', None) \<Rightarrow> g'
      | (g', Some r') \<Rightarrow> gui_run E M r' g')"
  by pat_completeness auto
termination
  by (relation "measure (\<lambda>(E, M, r, g). remaining M r)")
     (auto simp: gui_step_def remaining_def Let_def split: if_splits)

declare gui_run.simps [simp del]

text \<open>
  \<open>float(text)\<close> succeeds on a non-empty text of decimal digits; on any other text the
  answer is the library's.
\<close>

definition float_ok :: "pyenv \<Rightarrow> pystr \<Rightarrow> bool" where
  "float_ok E t = (if 0 < length t \<and> list_all is_digit t then True else float_accepts E t)"

text \<open>
  \<open>start_sequence\<close>: the three refusals, then the expression, the disabling of the
  controls and the first timer. The result is the window and the closure scheduled, if
  any.
\<close>

definition start_sequence :: "pyenv \<Rightarrow> gui \<Rightarrow> gui \<times> reveal option" where
  "start_sequence E g =
     (let a = py_strip (a_text g); b = py_strip (b_text g) in
      case selected g of
        None \<Rightarrow> (append_display (str_of ''Please select an operator'') True g, None)
      | Some btn \<Rightarrow>
          if a = [] \<or> b = [] then (append_display (str_of ''Enter both numbers'') True g, None)
          else if float_ok E a \<and> float_ok E b then
            (let expr = a @ str_of '' '' @ op_text btn @ str_of '' '' @ b;
                 g1 = set_selected_btn Disabled
                        (g\<lparr>btn_calc := Disabled, entry_a := Disabled, entry_b := Disabled\<rparr>)
             in (gui_after 0 g1, Some \<lparr>rv_expr = expr, rv_i = 0, rv_phase = 0\<rparr>))
          else (append_display (str_of ''Please enter valid numbers'') True g, None))"

text \<open>A click on Calculate runs \<open>start_sequence\<close> unless the button is disabled.\<close>

definition click_calc :: "pyenv \<Rightarrow> gui \<Rightarrow> gui \<times> reveal option" where
  "click_calc E g = (if btn_calc g = Disabled then (g, None) else start_sequence E g)"

text \<open>
  The window \<open>run_gui\<close> creates: nothing selected, empty entries, every widget enabled.
  Typing into an entry changes its text unless the entry is disabled.
\<close>

definition initial_gui :: gui where
  "initial_gui =
     \<lparr>display_text = [], display_bold = False, btn_calc = Normal, entry_a = Normal,
      entry_b = Normal, op_btn = (\<lambda>b. Normal), selected = None, a_text = [], b_text = [],
      gui_events = []\<rparr>"

definition type_a :: "pystr \<Rightarrow> gui \<Rightarrow> gui" where
  "type_a t g = (if entry_a g = Disabled then g else g\<lparr>a_text := t\<rparr>)"

definition type_b :: "pystr \<Rightarrow> gui \<Rightarrow> gui" where
  "type_b t g = (if entry_b g = Disabled then g else g\<lparr>b_text := t\<rparr>)"

text \<open>
  The keypad window after its creation: an empty display, nothing in memory, the twenty
  keys of the grid enabled.
\<close>

definition initial_keypad :: keypad where
  "initial_keypad =
     \<lparr>disp_var = [], memory_val = None, buttons = replicate 20 Normal, kp_events = []\<rparr>"

section \<open>Trees outside the arithmetic grammar\<close>

text \<open>
  A tree holds a construct outside the grammar of the specification when one of its
  nodes is neither a binary or unary operation nor a constant, or is a constant that is a
  string, bytes, \<open>None\<close> or \<open>...\<close>. Boolean constants are left out of this predicate:
  the evaluator accepts them.
\<close>

fun outside_arithmetic :: "node \<Rightarrow> bool" where
  "outside_arithmetic (Expression body) = outside_arithmetic body"
| "outside_arithmetic (BinOp l op r) = (outside_arithmetic l \<or> outside_arithmetic r)"
| "outside_arithmetic (UnaryOp op x) = outside_arithmetic x"
| "outside_arithmetic (Constant c) =
     (case c of
        CStr t \<Rightarrow> True
      | CBytes t \<Rightarrow> True
      | CNone \<Rightarrow> True
      | CEllipsis \<Rightarrow> True
      | _ \<Rightarrow> False)"
| "outside_arithmetic n = True"

section \<open>The reveal as the specification words it\<close>

text \<open>
  The specification's sequence of updates for a list of messages: message \<open>k\<close> for
  \<open>k = 0, ..., N - 1\<close> in this order, emphasized when \<open>k\<close> is odd, one delay of 2000 ms
  after each. \<open>gui_plan_from M k\<close> is the part from message \<open>k\<close> on. The keypad window has
  one font, so its updates carry no flag.
\<close>

definition gui_plan_from :: "pystr list \<Rightarrow> nat \<Rightarrow> event list" where
  "gui_plan_from M k = concat (map (\<lambda>j. [Display (M ! j) (odd j), After 2000]) [k..<length M])"

definition kp_plan_from :: "pystr list \<Rightarrow> nat \<Rightarrow> event list" where
  "kp_plan_from M k = concat (map (\<lambda>j. [Disp_set (M ! j), After 2000]) [k..<length M])"

text \<open>
  The text of the completion: the stringified result, with the decorative suffix when
  the result equals 5, or the description of the evaluator's error. There is no text
  where the result cannot be stringified: \<open>Inl\<close> is the exception of the conversion.
\<close>

definition result_text :: "pyenv \<Rightarrow> pystr \<Rightarrow> py_exn + pystr" where
  "result_text E expr =
     (case evaluate_expression E expr of
        Inl e \<Rightarrow> Inr (exn_str E e)
      | Inr res \<Rightarrow>
          (case py_str E res of
             Inl err \<Rightarrow> Inl err
           | Inr t \<Rightarrow> Inr (t @ (if equals_5 res then thumbs_up else []))))"

text \<open>
  The last two calls of a reveal: the evaluation, then the display of the text of the
  completion or, where there is no text, the exception that leaves the callback.
\<close>

definition gui_last_calls :: "pyenv \<Rightarrow> pystr \<Rightarrow> event list" where
  "gui_last_calls E expr =
     [Evaluate expr,
      (case result_text E expr of Inl e \<Rightarrow> Callback_error e | Inr t \<Rightarrow> Display t True)]"

definition kp_last_calls :: "pyenv \<Rightarrow> pystr \<Rightarrow> event list" where
  "kp_last_calls E expr =
     [Evaluate expr,
      (case result_text E expr of Inl e \<Rightarrow> Callback_error e | Inr t \<Rightarrow> Disp_set t)]"

text \<open>The keypad text whose result has 4301 digits, and the default limit of 4300 digits.\<close>

definition huge_power :: pystr where
  "huge_power = str_of ''10**4300''"

definition with_default_limit :: "pyenv \<Rightarrow> pyenv" where
  "with_default_limit E = E\<lparr>int_max_str_digits := 4300\<rparr>"

text \<open>The index of the next message a closure shows.\<close>

definition next_index :: "reveal \<Rightarrow> nat" where
  "next_index r = (if rv_phase r = 0 then rv_i r else rv_i r + 1)"

text \<open>Projections of a record of calls: the delays in total, and the evaluator's calls.\<close>

fun total_delay :: "event list \<Rightarrow> nat" where
  "total_delay [] = 0"
| "total_delay (After ms # es) = ms + total_delay es"
| "total_delay (e # es) = total_delay es"

fun evaluations :: "event list \<Rightarrow> pystr list" where
  "evaluations [] = []"
| "evaluations (Evaluate e # es) = e # evaluations es"
| "evaluations (e # es) = evaluations es"

fun updates :: "event list \<Rightarrow> (pystr \<times> bool) list" where
  "updates [] = []"
| "updates (Display t b # es) = (t, b) # updates es"
| "updates (e # es) = updates es"

fun settings :: "event list \<Rightarrow> pystr list" where
  "settings [] = []"
| "settings (Disp_set t # es) = t # settings es"
| "settings (e # es) = settings es"

text \<open>
  A session of the two-entry window: 1 typed into both entries and the plus button
  clicked, before Calculate is.
\<close>

definition one_plus_one_entered :: gui where
  "one_plus_one_entered = click_op plus_btn (type_b (str_of ''1'') (type_a (str_of ''1'') initial_gui))"

text \<open>
  The session goes on: Calculate is clicked; the first timer fires and \<open>step\<close> shows the
  first message; the minus button is clicked while the 2000 ms timer is pending; the
  timers fire until the reveal ends.
\<close>

definition after_calculate :: "pyenv \<Rightarrow> gui" where
  "after_calculate E = fst (click_calc E one_plus_one_entered)"

definition after_first_message :: "pyenv \<Rightarrow> gui" where
  "after_first_message E =
     fst (gui_step E MESSAGES \<lparr>rv_expr = str_of ''1 + 1'', rv_i = 0, rv_phase = 0\<rparr>
            (after_calculate E))"

definition after_minus_click :: "pyenv \<Rightarrow> gui" where
  "after_minus_click E = click_op minus_btn (after_first_message E)"

definition after_reveal :: "pyenv \<Rightarrow> gui" where
  "after_reveal E =
     gui_run E MESSAGES \<lparr>rv_expr = str_of ''1 + 1'', rv_i = 0, rv_phase = 1\<rparr>
       (after_minus_click E)"

text \<open>
  A library record for the closed instances of the theorems below. What it answers
  outside the core plays no role in them.
\<close>

definition some_library :: pyenv where
  "some_library =
     \<lparr>parse_ext = (\<lambda>s. Inl (Exn SyntaxError (Lib (str_of ''invalid syntax'')))),
      binop_ext = (\<lambda>f a b. Inl (Exn TypeError (Lib (str_of ''unsupported operand'')))),
      unop_ext = (\<lambda>f a. Inl (Exn TypeError (Lib (str_of ''bad operand'')))),
      zero_division_text = (\<lambda>f a b. str_of ''division by zero''),
      repr_ext = (\<lambda>v. str_of ''?''),
      operator_repr = (\<lambda>op. str_of ''operator''),
      unaryop_repr = (\<lambda>op. str_of ''unaryop''),
      ast_dump = (\<lambda>n. str_of ''node''),
      float_accepts = (\<lambda>t. False),
      int_max_str_digits = 4300,
      digits_limit_text = str_of ''Exceeds the limit (4300 digits) for integer string conversion''\<rparr>"

text \<open>The class of the exception a call raised, if it raised one.\<close>

definition raised_class :: "py_exn + pyval \<Rightarrow> exn_class option" where
  "raised_class r = (case r of Inl e \<Rightarrow> Some (class_of e) | Inr v \<Rightarrow> None)"

section \<open>Evaluating concrete texts\<close>

lemmas strip_eval = py_strip_def str_of_def ord_def py_isspace_def

lemmas arith_eval =
  ast_Num_def int_or_float_def ALLOWED_OPERATORS_def call2_def call1_def core_binop_def
  core_unop_def as_int_def as_float_def int_op_def float_op_def exact_float_def exact64_def
  is_zero_def divides_def

lemmas evaluate_eval = evaluate_expression_def normal_evaluation_def ast_parse_def

lemma parse_3_plus_4:
  "core_parse (str_of ''3 + 4'') = Some (BinOp (Constant (CInt 3)) Add (Constant (CInt 4)))"
  by code_simp

lemma plain_3_plus_4:
  "py_strip (str_of ''3 + 4'') \<noteq> str_of ''2 + 2'' \<and> py_strip (str_of ''3 + 4'') \<noteq> str_of ''2+2''"
  by (simp add: strip_eval)

lemma eval_3_plus_4: "evaluate_expression E (str_of ''3 + 4'') = Inr (PyInt 7)"
  by (simp add: evaluate_eval plain_3_plus_4 parse_3_plus_4 arith_eval)

lemma parse_10_div_4:
  "core_parse (str_of ''10 / 4'') = Some (BinOp (Constant (CInt 10)) Div (Constant (CInt 4)))"
  by code_simp

lemma plain_10_div_4:
  "py_strip (str_of ''10 / 4'') \<noteq> str_of ''2 + 2'' \<and> py_strip (str_of ''10 / 4'') \<noteq> str_of ''2+2''"
  by (simp add: strip_eval)

lemma eval_10_div_4: "evaluate_expression E (str_of ''10 / 4'') = Inr (PyFloat (Fin (5 / 2)))"
  by (simp add: evaluate_eval plain_10_div_4 parse_10_div_4 arith_eval)

lemma parse_10_floordiv_4:
  "core_parse (str_of ''10 // 4'') = Some (BinOp (Constant (CInt 10)) FloorDiv (Constant (CInt 4)))"
  by code_simp

lemma plain_10_floordiv_4:
  "py_strip (str_of ''10 // 4'') \<noteq> str_of ''2 + 2'' \<and> py_strip (str_of ''10 // 4'') \<noteq> str_of ''2+2''"
  by (simp add: strip_eval)

lemma eval_10_floordiv_4: "evaluate_expression E (str_of ''10 // 4'') = Inr (PyInt 2)"
  by (simp add: evaluate_eval plain_10_floordiv_4 parse_10_floordiv_4 arith_eval)

lemma parse_10_mod_4:
  "core_parse (str_of ''10 % 4'') = Some (BinOp (Constant (CInt 10)) Mod (Constant (CInt 4)))"
  by code_simp

lemma plain_10_mod_4:
  "py_strip (str_of ''10 % 4'') \<noteq> str_of ''2 + 2'' \<and> py_strip (str_of ''10 % 4'') \<noteq> str_of ''2+2''"
  by (simp add: strip_eval)

lemma eval_10_mod_4: "evaluate_expression E (str_of ''10 % 4'') = Inr (PyInt 2)"
  by (simp add: evaluate_eval plain_10_mod_4 parse_10_mod_4 arith_eval)

lemma parse_2_pow_10:
  "core_parse (str_of ''2 ** 10'') = Some (BinOp (Constant (CInt 2)) Pow_op (Constant (CInt 10)))"
  by code_simp

lemma plain_2_pow_10:
  "py_strip (str_of ''2 ** 10'') \<noteq> str_of ''2 + 2'' \<and> py_strip (str_of ''2 ** 10'') \<noteq> str_of ''2+2''"
  by (simp add: strip_eval)

lemma eval_2_pow_10: "evaluate_expression E (str_of ''2 ** 10'') = Inr (PyInt 1024)"
  by (simp add: evaluate_eval plain_2_pow_10 parse_2_pow_10 arith_eval)

lemma parse_minus_5_plus_2:
  "core_parse (str_of ''-5 + 2'') =
     Some (BinOp (UnaryOp USub (Constant (CInt 5))) Add (Constant (CInt 2)))"
  by code_simp

lemma plain_minus_5_plus_2:
  "py_strip (str_of ''-5 + 2'') \<noteq> str_of ''2 + 2'' \<and> py_strip (str_of ''-5 + 2'') \<noteq> str_of ''2+2''"
  by (simp add: strip_eval)

lemma eval_minus_5_plus_2: "evaluate_expression E (str_of ''-5 + 2'') = Inr (PyInt (- 3))"
  by (simp add: evaluate_eval plain_minus_5_plus_2 parse_minus_5_plus_2 arith_eval)

lemma strip_padded: "py_strip (str_of '' 2+2 '') = str_of ''2+2''"
  by (simp add: strip_eval)

lemma parse_float_2_plus_2:
  "core_parse (str_of ''2.0+2'') = Some (BinOp (Constant (CFloat (Fin 2))) Add (Constant (CInt 2)))"
  by code_simp

lemma plain_float_2_plus_2:
  "py_strip (str_of ''2.0+2'') \<noteq> str_of ''2 + 2'' \<and> py_strip (str_of ''2.0+2'') \<noteq> str_of ''2+2''"
  by (simp add: strip_eval)

lemma normal_float_2_plus_2: "normal_evaluation E (str_of ''2.0+2'') = Inr (PyFloat (Fin 4))"
  by (simp add: evaluate_eval parse_float_2_plus_2 arith_eval)

lemma parse_1_1_2:
  "core_parse (str_of ''1+1+2'') =
     Some (BinOp (BinOp (Constant (CInt 1)) Add (Constant (CInt 1))) Add (Constant (CInt 2)))"
  by code_simp

lemma plain_1_1_2:
  "py_strip (str_of ''1+1+2'') \<noteq> str_of ''2 + 2'' \<and> py_strip (str_of ''1+1+2'') \<noteq> str_of ''2+2''"
  by (simp add: strip_eval)

lemma normal_1_1_2: "normal_evaluation E (str_of ''1+1+2'') = Inr (PyInt 4)"
  by (simp add: evaluate_eval parse_1_1_2 arith_eval)

lemma parse_10_div_0:
  "core_parse (str_of ''10 / 0'') = Some (BinOp (Constant (CInt 10)) Div (Constant (CInt 0)))"
  by code_simp

lemma plain_10_div_0:
  "py_strip (str_of ''10 / 0'') \<noteq> str_of ''2 + 2'' \<and> py_strip (str_of ''10 / 0'') \<noteq> str_of ''2+2''"
  by (simp add: strip_eval)

lemma eval_10_div_0:
  "evaluate_expression E (str_of ''10 / 0'') =
     Inl (Exn ValueError (Invalid_expression (Exn ZeroDivisionError
       (Lib (zero_division_text E operator_truediv (PyInt 10) (PyInt 0))))))"
  by (simp add: evaluate_eval plain_10_div_0 parse_10_div_0 arith_eval)

lemma parse_abc: "core_parse (str_of ''abc'') = Some (Name (str_of ''abc''))"
  by code_simp

lemma plain_abc:
  "py_strip (str_of ''abc'') \<noteq> str_of ''2 + 2'' \<and> py_strip (str_of ''abc'') \<noteq> str_of ''2+2''"
  by (simp add: strip_eval)

lemma eval_abc:
  "evaluate_expression E (str_of ''abc'') =
     Inl (Exn ValueError (Invalid_expression (Exn ValueError
       (Unsupported_expression (Name (str_of ''abc''))))))"
  by (simp add: evaluate_eval plain_abc parse_abc)

lemma parse_len:
  "core_parse (str_of ''len([1,2])'') =
     Some (Call (Name (str_of ''len'')) [List_node [Constant (CInt 1), Constant (CInt 2)]])"
  by code_simp

lemma plain_len:
  "py_strip (str_of ''len([1,2])'') \<noteq> str_of ''2 + 2''
   \<and> py_strip (str_of ''len([1,2])'') \<noteq> str_of ''2+2''"
  by (simp add: strip_eval)

lemma eval_len:
  "evaluate_expression E (str_of ''len([1,2])'') =
     Inl (Exn ValueError (Invalid_expression (Exn ValueError
       (Unsupported_expression
          (Call (Name (str_of ''len'')) [List_node [Constant (CInt 1), Constant (CInt 2)]])))))"
  by (simp add: evaluate_eval plain_len parse_len)

lemma parse_1_and_2:
  "core_parse (str_of ''1 & 2'') = Some (BinOp (Constant (CInt 1)) BitAnd (Constant (CInt 2)))"
  by code_simp

lemma plain_1_and_2:
  "py_strip (str_of ''1 & 2'') \<noteq> str_of ''2 + 2'' \<and> py_strip (str_of ''1 & 2'') \<noteq> str_of ''2+2''"
  by (simp add: strip_eval)

lemma eval_1_and_2:
  "evaluate_expression E (str_of ''1 & 2'') =
     Inl (Exn ValueError (Invalid_expression (Exn ValueError (Operator_not_allowed BitAnd))))"
  by (simp add: evaluate_eval plain_1_and_2 parse_1_and_2 arith_eval)

lemma parse_True_plus_1:
  "core_parse (str_of ''True + 1'') = Some (BinOp (Constant (CBool True)) Add (Constant (CInt 1)))"
  by code_simp

lemma plain_True_plus_1:
  "py_strip (str_of ''True + 1'') \<noteq> str_of ''2 + 2''
   \<and> py_strip (str_of ''True + 1'') \<noteq> str_of ''2+2''"
  by (simp add: strip_eval)

lemma parse_True: "core_parse (str_of ''True'') = Some (Constant (CBool True))"
  by code_simp

lemma plain_True:
  "py_strip (str_of ''True'') \<noteq> str_of ''2 + 2'' \<and> py_strip (str_of ''True'') \<noteq> str_of ''2+2''"
  by (simp add: strip_eval)

section \<open>Properties of the evaluator\<close>

text \<open>
  C1. Every text whose form without surrounding white space is exactly \<open>2 + 2\<close> or
  exactly \<open>2+2\<close> evaluates to the literal 5. The parser and \<open>safe_eval\<close> play no part:
  the result is the same for every library, also where the parser rejects the text.
\<close>

theorem special_case_returns_5:
  "py_strip expr = str_of ''2 + 2'' \<or> py_strip expr = str_of ''2+2''
   \<Longrightarrow> evaluate_expression E expr = Inr (PyInt 5)"
  by (simp add: evaluate_expression_def)

theorem special_case_returns_5_witness:
  "(py_strip (str_of ''  2 + 2 '') = str_of ''2 + 2''
      \<or> py_strip (str_of ''  2 + 2 '') = str_of ''2+2'')
   \<and> evaluate_expression some_library (str_of ''  2 + 2 '') = Inr (PyInt 5)"
proof -
  have h: "py_strip (str_of ''  2 + 2 '') = str_of ''2 + 2''
           \<or> py_strip (str_of ''  2 + 2 '') = str_of ''2+2''"
    by (simp add: strip_eval)
  show ?thesis
    using h special_case_returns_5 [OF h, of some_library] by simp
qed

text \<open>
  C3, as the code has it. The text \<open>" 2+2 "\<close> is special-cased: its surrounding blanks
  are stripped before the comparison, and it evaluates to 5. The texts \<open>2.0+2\<close> and
  \<open>1+1+2\<close> are not: each is evaluated by the \<open>try\<close> block, to the float 4.0 and to the
  integer 4.
\<close>

theorem padded_text_special_cased_others_fall_through:
  "evaluate_expression E (str_of '' 2+2 '') = Inr (PyInt 5)
   \<and> evaluate_expression E (str_of ''2.0+2'') = normal_evaluation E (str_of ''2.0+2'')
   \<and> evaluate_expression E (str_of ''2.0+2'') = Inr (PyFloat (Fin 4))
   \<and> evaluate_expression E (str_of ''1+1+2'') = normal_evaluation E (str_of ''1+1+2'')
   \<and> evaluate_expression E (str_of ''1+1+2'') = Inr (PyInt 4)"
  by (simp add: evaluate_expression_def strip_padded plain_float_2_plus_2 plain_1_1_2
      normal_float_2_plus_2 normal_1_1_2)

theorem padded_text_special_cased_others_fall_through_witness:
  "evaluate_expression some_library (str_of '' 2+2 '') = Inr (PyInt 5)
   \<and> evaluate_expression some_library (str_of ''2.0+2'') = Inr (PyFloat (Fin 4))
   \<and> evaluate_expression some_library (str_of ''1+1+2'') = Inr (PyInt 4)"
  using padded_text_special_cased_others_fall_through [of some_library] by blast

text \<open>
  The claim as the specification states it fails on \<open>" 2+2 "\<close>: the result is 5, not 4,
  and it is not the result of normal evaluation.
\<close>

theorem padded_text_counterexample:
  "evaluate_expression some_library (str_of '' 2+2 '') = Inr (PyInt 5)
   \<and> evaluate_expression some_library (str_of '' 2+2 '') \<noteq> Inr (PyInt 4)
   \<and> evaluate_expression some_library (str_of '' 2+2 '')
       \<noteq> normal_evaluation some_library (str_of '' 2+2 '')"
proof -
  have "core_parse (str_of '' 2+2 '') = None"
    by code_simp
  then have "normal_evaluation some_library (str_of '' 2+2 '')
      = Inl (Exn ValueError (Invalid_expression (Exn SyntaxError (Lib (str_of ''invalid syntax'')))))"
    by (simp add: normal_evaluation_def ast_parse_def some_library_def)
  then show ?thesis
    by (simp add: evaluate_expression_def strip_padded)
qed

text \<open>
  C4. Standard arithmetic on texts that are not special-cased: \<open>3 + 4\<close> is 7, \<open>10 / 4\<close> is
  the float 2.5, \<open>10 // 4\<close> is 2, \<open>10 % 4\<close> is 2, \<open>2 ** 10\<close> is 1024 and \<open>-5 + 2\<close> is -3.
\<close>

theorem standard_arithmetic:
  "evaluate_expression E (str_of ''3 + 4'') = Inr (PyInt 7)
   \<and> evaluate_expression E (str_of ''10 / 4'') = Inr (PyFloat (Fin (5 / 2)))
   \<and> evaluate_expression E (str_of ''10 // 4'') = Inr (PyInt 2)
   \<and> evaluate_expression E (str_of ''10 % 4'') = Inr (PyInt 2)
   \<and> evaluate_expression E (str_of ''2 ** 10'') = Inr (PyInt 1024)
   \<and> evaluate_expression E (str_of ''-5 + 2'') = Inr (PyInt (- 3))"
  by (simp only: eval_3_plus_4 eval_10_div_4 eval_10_floordiv_4 eval_10_mod_4 eval_2_pow_10
      eval_minus_5_plus_2 simp_thms)

theorem standard_arithmetic_witness:
  "evaluate_expression some_library (str_of ''3 + 4'') = Inr (PyInt 7)
   \<and> evaluate_expression some_library (str_of ''10 / 4'') = Inr (PyFloat (Fin (5 / 2)))"
  using standard_arithmetic [of some_library] by simp

text \<open>
  C5, as the code has it. \<open>evaluate_expression\<close> raises one class of exception only,
  \<open>ValueError\<close>, whose message is \<open>Invalid expression: \<close> followed by the text of the
  exception caught. For \<open>10 / 0\<close> that exception is the \<open>ZeroDivisionError\<close> of the
  division; for \<open>abc\<close> and \<open>len([1,2])\<close> it is the \<open>ValueError\<close> "Unsupported expression" of
  \<open>safe_eval\<close>, for the \<open>Name\<close> and for the \<open>Call\<close> node; for \<open>1 & 2\<close> it is the
  \<open>ValueError\<close> "Operator not allowed". The causes differ in the message, not in the class
  of what is raised.
\<close>

theorem failures_are_ValueErrors_with_cause:
  "evaluate_expression E (str_of ''10 / 0'') =
     Inl (Exn ValueError (Invalid_expression (Exn ZeroDivisionError
       (Lib (zero_division_text E operator_truediv (PyInt 10) (PyInt 0))))))
   \<and> evaluate_expression E (str_of ''abc'') =
     Inl (Exn ValueError (Invalid_expression (Exn ValueError
       (Unsupported_expression (Name (str_of ''abc''))))))
   \<and> evaluate_expression E (str_of ''len([1,2])'') =
     Inl (Exn ValueError (Invalid_expression (Exn ValueError
       (Unsupported_expression
          (Call (Name (str_of ''len'')) [List_node [Constant (CInt 1), Constant (CInt 2)]])))))
   \<and> evaluate_expression E (str_of ''1 & 2'') =
     Inl (Exn ValueError (Invalid_expression (Exn ValueError (Operator_not_allowed BitAnd))))"
  by (simp only: eval_10_div_0 eval_abc eval_len eval_1_and_2 simp_thms)

theorem failures_are_ValueErrors_with_cause_witness:
  "raised_class (evaluate_expression some_library (str_of ''10 / 0'')) = Some ValueError
   \<and> raised_class (evaluate_expression some_library (str_of ''abc'')) = Some ValueError
   \<and> raised_class (evaluate_expression some_library (str_of ''len([1,2])'')) = Some ValueError"
  using failures_are_ValueErrors_with_cause [of some_library] by (simp add: raised_class_def)

text \<open>
  The claim as the specification states it fails on \<open>10 / 0\<close>: the exception raised is
  not of a class of its own, it is of the class raised for \<open>abc\<close>.
\<close>

theorem division_by_zero_class_counterexample:
  "raised_class (evaluate_expression some_library (str_of ''10 / 0'')) \<noteq> Some ZeroDivisionError
   \<and> raised_class (evaluate_expression some_library (str_of ''10 / 0''))
       = raised_class (evaluate_expression some_library (str_of ''abc''))"
  by (simp add: eval_10_div_0 eval_abc raised_class_def)

text \<open>
  What the evaluator does reject: a text the parser rejects, and a text whose tree holds
  a name, a call, a comparison, a collection or any other node outside the arithmetic
  grammar, or a string constant. No such text produces a value.
\<close>

lemma safe_eval_rejects:
  "outside_arithmetic n \<Longrightarrow> \<exists>e. safe_eval E n = Inl e"
  by (induction E n rule: safe_eval.induct)
     (auto split: sum.splits option.splits pyconst.splits simp: ast_Num_def int_or_float_def)

lemma evaluate_rejects_tree:
  assumes "py_strip expr \<noteq> str_of ''2 + 2''" and "py_strip expr \<noteq> str_of ''2+2''"
    and "ast_parse E expr = Inr t" and "outside_arithmetic t"
  shows "\<exists>e. evaluate_expression E expr = Inl (Exn ValueError (Invalid_expression e))"
  using assms safe_eval_rejects [of t E]
  by (auto simp: evaluate_expression_def normal_evaluation_def)

lemma evaluate_rejects_unparsable:
  assumes "py_strip expr \<noteq> str_of ''2 + 2''" and "py_strip expr \<noteq> str_of ''2+2''"
    and "ast_parse E expr = Inl e"
  shows "evaluate_expression E expr = Inl (Exn ValueError (Invalid_expression e))"
  using assms by (simp add: evaluate_expression_def normal_evaluation_def)

text \<open>
  C6 on the code: a boolean literal is not rejected. \<open>True\<close> is a \<open>Constant\<close> whose value
  is an instance of \<open>int\<close>, so \<open>safe_eval\<close> returns it, and \<open>True + 1\<close> evaluates to the
  number 2.
\<close>

theorem boolean_literal_evaluates:
  "evaluate_expression E (str_of ''True + 1'') = Inr (PyInt 2)
   \<and> evaluate_expression E (str_of ''True'') = Inr (PyBool True)"
  by (simp add: evaluate_eval plain_True_plus_1 parse_True_plus_1 plain_True parse_True
      arith_eval)

section \<open>Properties of the sequencers\<close>

subsection \<open>The calls one run makes\<close>

lemma gui_finish_events:
  "gui_events (gui_finish E expr g) = gui_events g @ gui_last_calls E expr"
  by (simp add: gui_finish_def gui_last_calls_def result_text_def append_display_def
      enable_controls_def set_selected_btn_def gui_callback_error_def Let_def
      split: sum.splits option.splits)

lemma finish_events:
  "kp_events (finish E expr g) = kp_events g @ kp_last_calls E expr"
  by (simp add: finish_def kp_last_calls_def result_text_def disp_set_def set_buttons_def
      kp_callback_error_def Let_def split: sum.splits)

lemma gui_plan_from_step:
  "k < length M \<Longrightarrow>
   gui_plan_from M k = [Display (M ! k) (odd k), After 2000] @ gui_plan_from M (Suc k)"
  by (simp add: gui_plan_from_def upt_conv_Cons)

lemma gui_plan_from_done: "length M \<le> k \<Longrightarrow> gui_plan_from M k = []"
  by (simp add: gui_plan_from_def)

lemma kp_plan_from_step:
  "k < length M \<Longrightarrow> kp_plan_from M k = [Disp_set (M ! k), After 2000] @ kp_plan_from M (Suc k)"
  by (simp add: kp_plan_from_def upt_conv_Cons)

lemma kp_plan_from_done: "length M \<le> k \<Longrightarrow> kp_plan_from M k = []"
  by (simp add: kp_plan_from_def)

text \<open>
  A call of \<open>step\<close> that still has a message to show: it shows the next message and
  schedules itself. The index of the dictionary is even at every call of a run, which
  makes the emphasized messages the ones of odd position.
\<close>

lemma gui_step_again:
  assumes "next_index r < length M" and "even (rv_i r)"
  shows "gui_step E M r g =
     (gui_after 2000 (append_display (M ! next_index r) (odd (next_index r)) g),
      Some (r\<lparr>rv_i := (if rv_phase r = 0 then rv_i r else rv_i r + 2),
               rv_phase := (if rv_phase r = 0 then 1 else 0)\<rparr>))"
proof (cases "rv_phase r = 0")
  case True
  with assms show ?thesis by (simp add: gui_step_def next_index_def Let_def)
next
  case False
  with assms show ?thesis by (simp add: gui_step_def next_index_def Let_def)
qed

lemma gui_step_done:
  assumes "length M \<le> next_index r"
  shows "gui_step E M r g = (gui_finish E (rv_expr r) g, None)"
proof (cases "rv_phase r = 0")
  case True
  with assms show ?thesis by (simp add: gui_step_def next_index_def Let_def)
next
  case False
  with assms show ?thesis by (simp add: gui_step_def next_index_def Let_def)
qed

lemma kp_step_again:
  assumes "next_index r < length M"
  shows "kp_step E M r g =
     (kp_after 2000 (disp_set (M ! next_index r) g),
      Some (r\<lparr>rv_i := (if rv_phase r = 0 then rv_i r else rv_i r + 2),
               rv_phase := (if rv_phase r = 0 then 1 else 0)\<rparr>))"
proof (cases "rv_phase r = 0")
  case True
  with assms show ?thesis by (simp add: kp_step_def next_index_def Let_def)
next
  case False
  with assms show ?thesis by (simp add: kp_step_def next_index_def Let_def)
qed

lemma kp_step_done:
  assumes "length M \<le> next_index r"
  shows "kp_step E M r g = (finish E (rv_expr r) g, None)"
proof (cases "rv_phase r = 0")
  case True
  with assms show ?thesis by (simp add: kp_step_def next_index_def Let_def)
next
  case False
  with assms show ?thesis by (simp add: kp_step_def next_index_def Let_def)
qed

lemma gui_run_events:
  "even (rv_i r) \<Longrightarrow>
   gui_events (gui_run E M r g) =
     gui_events g @ gui_plan_from M (next_index r)
       @ gui_last_calls E (rv_expr r)"
proof (induction E M r g rule: gui_run.induct)
  case (1 E M r g)
  show ?case
  proof (cases "next_index r < length M")
    case True
    let ?r' = "r\<lparr>rv_i := (if rv_phase r = 0 then rv_i r else rv_i r + 2),
               rv_phase := (if rv_phase r = 0 then 1 else 0)\<rparr>"
    let ?g' = "gui_after 2000 (append_display (M ! next_index r) (odd (next_index r)) g)"
    have st: "gui_step E M r g = (?g', Some ?r')"
      using True "1.prems" by (rule gui_step_again)
    have ev: "even (rv_i ?r')" using "1.prems" by simp
    have nx: "next_index ?r' = Suc (next_index r)" by (simp add: next_index_def)
    have ex: "rv_expr ?r' = rv_expr r" by simp
    have "gui_events (gui_run E M ?r' ?g') =
        gui_events ?g' @ gui_plan_from M (next_index ?r')
          @ gui_last_calls E (rv_expr ?r')"
      using "1.IH" [OF st [symmetric] refl ev] .
    moreover have "gui_run E M r g = gui_run E M ?r' ?g'"
      by (subst gui_run.simps) (simp add: st)
    moreover have "gui_events ?g' =
        gui_events g @ [Display (M ! next_index r) (odd (next_index r)), After 2000]"
      by (simp add: gui_after_def append_display_def)
    ultimately show ?thesis
      using gui_plan_from_step [OF True] by (simp add: nx ex)
  next
    case False
    then have st: "gui_step E M r g = (gui_finish E (rv_expr r) g, None)"
      by (intro gui_step_done) simp
    have "gui_run E M r g = gui_finish E (rv_expr r) g"
      by (subst gui_run.simps) (simp add: st)
    then show ?thesis
      using False by (simp add: gui_finish_events gui_plan_from_done)
  qed
qed

lemma kp_run_events:
  "kp_events (kp_run E M r g) =
     kp_events g @ kp_plan_from M (next_index r)
       @ kp_last_calls E (rv_expr r)"
proof (induction E M r g rule: kp_run.induct)
  case (1 E M r g)
  show ?case
  proof (cases "next_index r < length M")
    case True
    let ?r' = "r\<lparr>rv_i := (if rv_phase r = 0 then rv_i r else rv_i r + 2),
               rv_phase := (if rv_phase r = 0 then 1 else 0)\<rparr>"
    let ?g' = "kp_after 2000 (disp_set (M ! next_index r) g)"
    have st: "kp_step E M r g = (?g', Some ?r')"
      using True by (rule kp_step_again)
    have nx: "next_index ?r' = Suc (next_index r)" by (simp add: next_index_def)
    have ex: "rv_expr ?r' = rv_expr r" by simp
    have "kp_events (kp_run E M ?r' ?g') =
        kp_events ?g' @ kp_plan_from M (next_index ?r')
          @ kp_last_calls E (rv_expr ?r')"
      using "1.IH" [OF st [symmetric] refl] .
    moreover have "kp_run E M r g = kp_run E M ?r' ?g'"
      by (subst kp_run.simps) (simp add: st)
    moreover have "kp_events ?g' = kp_events g @ [Disp_set (M ! next_index r), After 2000]"
      by (simp add: kp_after_def disp_set_def)
    ultimately show ?thesis
      using kp_plan_from_step [OF True] by (simp add: nx ex)
  next
    case False
    then have st: "kp_step E M r g = (finish E (rv_expr r) g, None)"
      by (intro kp_step_done) simp
    have "kp_run E M r g = finish E (rv_expr r) g"
      by (subst kp_run.simps) (simp add: st)
    then show ?thesis
      using False by (simp add: finish_events kp_plan_from_done)
  qed
qed

subsection \<open>The window a run leaves\<close>

text \<open>
  A run ends in the last branch of \<open>step\<close>, entered from a window that differs from the
  one the run started in by its display and its record of calls only.
\<close>

lemma gui_run_ends_in_finish:
  "\<exists>g'. gui_run E M r g = gui_finish E (rv_expr r) g'
        \<and> btn_calc g' = btn_calc g \<and> entry_a g' = entry_a g \<and> entry_b g' = entry_b g
        \<and> op_btn g' = op_btn g \<and> selected g' = selected g
        \<and> a_text g' = a_text g \<and> b_text g' = b_text g"
proof (induction E M r g rule: gui_run.induct)
  case (1 E M r g)
  show ?case
  proof (cases "gui_step E M r g")
    case (Pair g1 nxt)
    show ?thesis
    proof (cases nxt)
      case None
      with Pair have "gui_run E M r g = g1"
        by (subst gui_run.simps) simp
      moreover from Pair None have "g1 = gui_finish E (rv_expr r) g"
        by (auto simp: gui_step_def Let_def split: if_splits)
      ultimately show ?thesis by blast
    next
      case (Some r1)
      with Pair have run: "gui_run E M r g = gui_run E M r1 g1"
        by (subst gui_run.simps) simp
      from Pair Some have same:
        "rv_expr r1 = rv_expr r \<and> btn_calc g1 = btn_calc g \<and> entry_a g1 = entry_a g
         \<and> entry_b g1 = entry_b g \<and> op_btn g1 = op_btn g \<and> selected g1 = selected g
         \<and> a_text g1 = a_text g \<and> b_text g1 = b_text g"
        by (auto simp: gui_step_def Let_def gui_after_def append_display_def split: if_splits)
      from "1.IH" [OF Pair [symmetric] Some]
      obtain g' where "gui_run E M r1 g1 = gui_finish E (rv_expr r1) g'
        \<and> btn_calc g' = btn_calc g1 \<and> entry_a g' = entry_a g1 \<and> entry_b g' = entry_b g1
        \<and> op_btn g' = op_btn g1 \<and> selected g' = selected g1
        \<and> a_text g' = a_text g1 \<and> b_text g' = b_text g1"
        by auto
      with run same show ?thesis by auto
    qed
  qed
qed

lemma kp_run_ends_in_finish:
  "\<exists>g'. kp_run E M r g = finish E (rv_expr r) g'
        \<and> buttons g' = buttons g \<and> memory_val g' = memory_val g"
proof (induction E M r g rule: kp_run.induct)
  case (1 E M r g)
  show ?case
  proof (cases "kp_step E M r g")
    case (Pair g1 nxt)
    show ?thesis
    proof (cases nxt)
      case None
      with Pair have "kp_run E M r g = g1"
        by (subst kp_run.simps) simp
      moreover from Pair None have "g1 = finish E (rv_expr r) g"
        by (auto simp: kp_step_def Let_def split: if_splits)
      ultimately show ?thesis by blast
    next
      case (Some r1)
      with Pair have run: "kp_run E M r g = kp_run E M r1 g1"
        by (subst kp_run.simps) simp
      from Pair Some have same:
        "rv_expr r1 = rv_expr r \<and> buttons g1 = buttons g \<and> memory_val g1 = memory_val g"
        by (auto simp: kp_step_def Let_def kp_after_def disp_set_def split: if_splits)
      from "1.IH" [OF Pair [symmetric] Some]
      obtain g' where "kp_run E M r1 g1 = finish E (rv_expr r1) g'
        \<and> buttons g' = buttons g1 \<and> memory_val g' = memory_val g1"
        by auto
      with run same show ?thesis by auto
    qed
  qed
qed

text \<open>
  What the last branch leaves: with a text, the window shows it and the controls are
  enabled; without one, the window is as the branch found it.
\<close>

lemma finish_with_text:
  assumes "result_text E expr = Inr t"
  shows "disp_var (finish E expr g) = t
     \<and> buttons (finish E expr g) = map (\<lambda>b. Normal) (buttons g)"
  using assms
  by (auto simp: finish_def result_text_def disp_set_def set_buttons_def Let_def
      split: sum.splits if_splits)

lemma finish_without_text:
  assumes "result_text E expr = Inl e"
  shows "disp_var (finish E expr g) = disp_var g \<and> buttons (finish E expr g) = buttons g"
  using assms
  by (auto simp: finish_def result_text_def kp_callback_error_def Let_def
      split: sum.splits if_splits)

lemma gui_finish_with_text:
  assumes "result_text E expr = Inr t"
  shows "display_text (gui_finish E expr g) = t \<and> display_bold (gui_finish E expr g) = True
     \<and> btn_calc (gui_finish E expr g) = Normal \<and> entry_a (gui_finish E expr g) = Normal
     \<and> entry_b (gui_finish E expr g) = Normal \<and> selected (gui_finish E expr g) = selected g
     \<and> op_btn (gui_finish E expr g)
         = (case selected g of None \<Rightarrow> op_btn g | Some b \<Rightarrow> (op_btn g)(b := Normal))"
  using assms
  by (auto simp: gui_finish_def result_text_def append_display_def enable_controls_def
      set_selected_btn_def Let_def split: sum.splits if_splits option.splits)

lemma gui_finish_without_text:
  assumes "result_text E expr = Inl e"
  shows "display_text (gui_finish E expr g) = display_text g
     \<and> btn_calc (gui_finish E expr g) = btn_calc g \<and> entry_a (gui_finish E expr g) = entry_a g
     \<and> entry_b (gui_finish E expr g) = entry_b g \<and> op_btn (gui_finish E expr g) = op_btn g"
  using assms
  by (auto simp: gui_finish_def result_text_def gui_callback_error_def Let_def
      split: sum.splits if_splits)

lemma kp_run_with_text:
  assumes "result_text E (rv_expr r) = Inr t"
  shows "disp_var (kp_run E M r g) = t
     \<and> buttons (kp_run E M r g) = map (\<lambda>b. Normal) (buttons g)"
proof -
  obtain g' where g': "kp_run E M r g = finish E (rv_expr r) g'" "buttons g' = buttons g"
    using kp_run_ends_in_finish [of E M r g] by auto
  show ?thesis
    using finish_with_text [OF assms, of g'] by (simp add: g')
qed

lemma kp_run_without_text_buttons:
  assumes "result_text E (rv_expr r) = Inl e"
  shows "buttons (kp_run E M r g) = buttons g"
proof -
  obtain g' where g': "kp_run E M r g = finish E (rv_expr r) g'" "buttons g' = buttons g"
    using kp_run_ends_in_finish [of E M r g] by auto
  show ?thesis
    using finish_without_text [OF assms, of g'] by (simp add: g')
qed

lemma gui_run_display:
  assumes "result_text E (rv_expr r) = Inr t"
  shows "display_text (gui_run E M r g) = t \<and> display_bold (gui_run E M r g) = True"
proof -
  obtain g' where g': "gui_run E M r g = gui_finish E (rv_expr r) g'"
    using gui_run_ends_in_finish [of E M r g] by auto
  show ?thesis
    using gui_finish_with_text [OF assms, of g'] by (simp add: g')
qed

lemma gui_run_widgets:
  assumes "result_text E (rv_expr r) = Inr t"
  shows "btn_calc (gui_run E M r g) = Normal \<and> entry_a (gui_run E M r g) = Normal
     \<and> entry_b (gui_run E M r g) = Normal \<and> selected (gui_run E M r g) = selected g
     \<and> op_btn (gui_run E M r g)
         = (case selected g of None \<Rightarrow> op_btn g | Some b \<Rightarrow> (op_btn g)(b := Normal))"
proof -
  obtain g' where g': "gui_run E M r g = gui_finish E (rv_expr r) g'"
    "op_btn g' = op_btn g" "selected g' = selected g"
    using gui_run_ends_in_finish [of E M r g] by auto
  show ?thesis
    using gui_finish_with_text [OF assms, of g'] by (auto simp: g' split: option.splits)
qed

text \<open>
  Without a text the keypad window keeps showing the last message of the list (or what
  it showed before, when no message was left to show).
\<close>

lemma kp_run_without_text_display:
  assumes "result_text E (rv_expr r) = Inl e"
  shows "disp_var (kp_run E M r g) = (if next_index r < length M then last M else disp_var g)"
  using assms
proof (induction E M r g rule: kp_run.induct)
  case (1 E M r g)
  show ?case
  proof (cases "next_index r < length M")
    case True
    let ?r' = "r\<lparr>rv_i := (if rv_phase r = 0 then rv_i r else rv_i r + 2),
               rv_phase := (if rv_phase r = 0 then 1 else 0)\<rparr>"
    let ?g' = "kp_after 2000 (disp_set (M ! next_index r) g)"
    have st: "kp_step E M r g = (?g', Some ?r')"
      using True by (rule kp_step_again)
    have nx: "next_index ?r' = Suc (next_index r)" by (simp add: next_index_def)
    have ex: "result_text E (rv_expr ?r') = Inl e" using "1.prems" by simp
    have ih: "disp_var (kp_run E M ?r' ?g') =
        (if next_index ?r' < length M then last M else disp_var ?g')"
      using "1.IH" [OF st [symmetric] refl ex] .
    have run: "kp_run E M r g = kp_run E M ?r' ?g'"
      by (subst kp_run.simps) (simp add: st)
    have shown: "disp_var ?g' = M ! next_index r"
      by (simp add: kp_after_def disp_set_def)
    show ?thesis
    proof (cases "Suc (next_index r) < length M")
      case True
      with ih run nx \<open>next_index r < length M\<close> show ?thesis by simp
    next
      case False
      with \<open>next_index r < length M\<close> have "next_index r = length M - 1" by simp
      moreover from \<open>next_index r < length M\<close> have "M \<noteq> []" by auto
      ultimately have "M ! next_index r = last M" by (simp add: last_conv_nth)
      with ih run nx shown False \<open>next_index r < length M\<close> show ?thesis by simp
    qed
  next
    case False
    then have st: "kp_step E M r g = (finish E (rv_expr r) g, None)"
      by (intro kp_step_done) simp
    have "kp_run E M r g = finish E (rv_expr r) g"
      by (subst kp_run.simps) (simp add: st)
    then show ?thesis
      using False finish_without_text [OF "1.prems", of g] by simp
  qed
qed

subsection \<open>Projections of the planned calls\<close>

lemma updates_append: "updates (xs @ ys) = updates xs @ updates ys"
  by (induction xs rule: updates.induct) simp_all

lemma settings_append: "settings (xs @ ys) = settings xs @ settings ys"
  by (induction xs rule: settings.induct) simp_all

lemma evaluations_append: "evaluations (xs @ ys) = evaluations xs @ evaluations ys"
  by (induction xs rule: evaluations.induct) simp_all

lemma total_delay_append: "total_delay (xs @ ys) = total_delay xs + total_delay ys"
  by (induction xs rule: total_delay.induct) simp_all

lemma updates_plan:
  "updates (concat (map (\<lambda>j. [Display (f j) (h j), After 2000]) js)) = map (\<lambda>j. (f j, h j)) js"
  by (induction js) simp_all

lemma settings_plan:
  "settings (concat (map (\<lambda>j. [Disp_set (f j), After 2000]) js)) = map f js"
  by (induction js) simp_all

lemma evaluations_gui_plan:
  "evaluations (concat (map (\<lambda>j. [Display (f j) (h j), After 2000]) js)) = []"
  by (induction js) simp_all

lemma evaluations_kp_plan:
  "evaluations (concat (map (\<lambda>j. [Disp_set (f j), After 2000]) js)) = []"
  by (induction js) simp_all

lemma total_delay_gui_plan:
  "total_delay (concat (map (\<lambda>j. [Display (f j) (h j), After 2000]) js)) = length js * 2000"
  by (induction js) simp_all

lemma total_delay_kp_plan:
  "total_delay (concat (map (\<lambda>j. [Disp_set (f j), After 2000]) js)) = length js * 2000"
  by (induction js) simp_all

lemma gui_plan_updates: "updates (gui_plan_from M 0) = map (\<lambda>j. (M ! j, odd j)) [0..<length M]"
  by (simp add: gui_plan_from_def updates_plan)

lemma kp_plan_settings: "settings (kp_plan_from M 0) = M"
  by (simp add: kp_plan_from_def settings_plan map_nth)

lemma length_MESSAGES: "length MESSAGES = 9"
  by (simp add: MESSAGES_def)

subsection \<open>What every reveal does\<close>

text \<open>
  One run of either sequencer over a list \<open>M\<close> of \<open>N\<close> messages makes these calls, in this
  order: the first timer, then for each \<open>k = 0, ..., N - 1\<close> the display of message \<open>k\<close>
  followed by one timer of 2000 ms, then the evaluation, once, and the last call. In the
  two-entry window update \<open>k\<close> is emphasized exactly when \<open>k\<close> is odd. The delays add up
  to \<open>N * 2000\<close>.
\<close>

lemma gui_reveal_calls:
  "gui_events (gui_run E M \<lparr>rv_expr = expr, rv_i = 0, rv_phase = 0\<rparr> (gui_after 0 g)) =
     gui_events g @ [After 0] @ gui_plan_from M 0 @ gui_last_calls E expr"
  by (simp add: gui_run_events next_index_def gui_after_def)

lemma keypad_reveal_calls:
  "kp_events (run_sequence_then_eval E M expr k) =
     kp_events k @ [After 0] @ kp_plan_from M 0 @ kp_last_calls E expr"
  by (simp add: run_sequence_then_eval_def kp_run_events next_index_def kp_after_def
      set_buttons_def)

lemma plan_delays:
  "total_delay ([After 0] @ gui_plan_from M 0) = length M * 2000"
  "total_delay ([After 0] @ kp_plan_from M 0) = length M * 2000"
  by (simp_all add: gui_plan_from_def kp_plan_from_def total_delay_gui_plan total_delay_kp_plan)

lemma one_evaluation_per_reveal:
  "evaluations (kp_events (run_sequence_then_eval E M expr k)) = evaluations (kp_events k) @ [expr]"
  "evaluations (gui_events (gui_run E M \<lparr>rv_expr = expr, rv_i = 0, rv_phase = 0\<rparr> (gui_after 0 g)))
     = evaluations (gui_events g) @ [expr]"
  by (simp_all add: keypad_reveal_calls gui_reveal_calls kp_last_calls_def gui_last_calls_def
      evaluations_append kp_plan_from_def gui_plan_from_def evaluations_kp_plan
      evaluations_gui_plan split: sum.splits)

text \<open>
  Where the completion has a text, the run ends showing it, with the controls the keypad
  window disabled enabled again.
\<close>

lemma keypad_reveal_with_text:
  assumes "result_text E expr = Inr t"
  shows "disp_var (run_sequence_then_eval E M expr k) = t
     \<and> buttons (run_sequence_then_eval E M expr k) = map (\<lambda>b. Normal) (buttons k)
     \<and> settings (kp_events (run_sequence_then_eval E M expr k))
         = settings (kp_events k) @ M @ [t]"
proof -
  have "result_text E (rv_expr \<lparr>rv_expr = expr, rv_i = 0, rv_phase = 0\<rparr>) = Inr t"
    using assms by simp
  from kp_run_with_text [OF this]
  have a: "disp_var (run_sequence_then_eval E M expr k) = t
     \<and> buttons (run_sequence_then_eval E M expr k) = map (\<lambda>b. Normal) (buttons k)"
    by (simp add: run_sequence_then_eval_def kp_after_def set_buttons_def)
  have "settings (kp_events (run_sequence_then_eval E M expr k))
         = settings (kp_events k) @ M @ [t]"
    by (simp add: keypad_reveal_calls settings_append kp_plan_settings kp_last_calls_def assms)
  with a show ?thesis by simp
qed

subsection \<open>Small and huge results\<close>

lemma small_within_limit: "\<bar>n\<bar> < 10 \<Longrightarrow> \<not> exceeds_digits L n"
proof -
  assume a: "\<bar>n\<bar> < 10"
  have "0 < L \<Longrightarrow> (10::int) \<le> 10 ^ L"
    by (rule self_le_power) simp_all
  with a show ?thesis by (auto simp: exceeds_digits_def)
qed

lemma py_str_small: "\<bar>n\<bar> < 10 \<Longrightarrow> py_str E (PyInt n) = Inr (int_str n)"
  by (simp add: py_str_def small_within_limit)

lemma int_str_digits:
  "int_str 2 = str_of ''2''" "int_str 5 = str_of ''5''" "int_str 7 = str_of ''7''"
  by (simp_all add: int_str_def nat_str.simps [of 2] nat_str.simps [of 5] nat_str.simps [of 7]
      str_of_def ord_def)

lemma parse_huge_power:
  "core_parse huge_power = Some (BinOp (Constant (CInt 10)) Pow_op (Constant (CInt 4300)))"
  unfolding huge_power_def by code_simp

lemma plain_huge_power:
  "py_strip huge_power \<noteq> str_of ''2 + 2'' \<and> py_strip huge_power \<noteq> str_of ''2+2''"
  by (simp add: huge_power_def strip_eval)

lemma pow_call:
  "0 \<le> b \<Longrightarrow> call2 E operator_pow (PyInt a) (PyInt b) = Inr (PyInt (a ^ nat b))"
  by (simp add: call2_def core_binop_def as_int_def int_op_def)

lemma safe_eval_huge_power:
  "safe_eval E (Expression (BinOp (Constant (CInt 10)) Pow_op (Constant (CInt 4300))))
     = Inr (PyInt (10 ^ 4300))"
proof -
  have "safe_eval E (Expression (BinOp (Constant (CInt 10)) Pow_op (Constant (CInt 4300))))
      = call2 E operator_pow (PyInt 10) (PyInt 4300)"
    by (simp add: ast_Num_def ALLOWED_OPERATORS_def)
  moreover have "call2 E operator_pow (PyInt 10) (PyInt 4300) = Inr (PyInt (10 ^ nat 4300))"
    by (rule pow_call) simp
  moreover have "nat (4300::int) = 4300" by simp
  ultimately show ?thesis by (simp only:)
qed

lemma eval_huge_power: "evaluate_expression E huge_power = Inr (PyInt (10 ^ 4300))"
  by (simp only: evaluate_expression_def normal_evaluation_def ast_parse_def plain_huge_power
      parse_huge_power safe_eval_huge_power option.case sum.case if_False simp_thms)

lemma huge_exceeds: "exceeds_digits 4300 (10 ^ 4300)"
proof -
  have "(0::int) \<le> 10 ^ 4300" by (rule zero_le_power) simp
  then have "\<bar>(10::int) ^ 4300\<bar> = 10 ^ 4300" by (rule abs_of_nonneg)
  then show ?thesis by (simp add: exceeds_digits_def del: power_numeral)
qed

lemma str_huge:
  "py_str (with_default_limit E) (PyInt (10 ^ 4300)) = Inl (Exn ValueError (Lib (digits_limit_text E)))"
  using huge_exceeds by (simp add: py_str_def with_default_limit_def del: power_numeral)

lemma huge_not_5: "\<not> equals_5 (PyInt (10 ^ 4300))"
proof -
  have "(10::int) ^ 1 \<le> 10 ^ 4300" by (rule power_increasing) simp_all
  then have "(5::int) < 10 ^ 4300" by (simp del: power_numeral)
  then show ?thesis by (simp add: equals_5_def del: power_numeral)
qed

lemma no_text_for_huge_power:
  "result_text (with_default_limit E) huge_power = Inl (Exn ValueError (Lib (digits_limit_text E)))"
  by (simp only: result_text_def eval_huge_power str_huge sum.case)

lemma last_MESSAGES: "last MESSAGES = str_of ''Almost there...''"
  by (simp add: MESSAGES_def)

subsection \<open>The claims about the sequencers\<close>

text \<open>
  C2 on the code. The nine updates and their nine delays take place for every
  expression, but the completion does not: \<open>10**4300\<close> typed on the keypad, with the
  interpreter's default limit of 4300 digits, evaluates to an integer of 4301 digits,
  whose conversion to text raises outside the \<open>try\<close>. The run makes its nine updates in
  list order, evaluates, and ends with the exception leaving the callback: no call of
  \<open>disp_var.set\<close> follows the last message.
\<close>

theorem keypad_reveal_ends_without_completion:
  "kp_events (run_sequence_then_eval (with_default_limit E) MESSAGES huge_power initial_keypad) =
     [After 0] @ kp_plan_from MESSAGES 0
       @ [Evaluate huge_power, Callback_error (Exn ValueError (Lib (digits_limit_text E)))]
   \<and> settings (kp_events (run_sequence_then_eval (with_default_limit E) MESSAGES huge_power
        initial_keypad)) = MESSAGES
   \<and> total_delay (kp_events (run_sequence_then_eval (with_default_limit E) MESSAGES huge_power
        initial_keypad)) = 18000"
proof -
  have calls:
    "kp_events (run_sequence_then_eval (with_default_limit E) MESSAGES huge_power initial_keypad) =
     [After 0] @ kp_plan_from MESSAGES 0
       @ [Evaluate huge_power, Callback_error (Exn ValueError (Lib (digits_limit_text E)))]"
    by (simp add: keypad_reveal_calls kp_last_calls_def no_text_for_huge_power
        initial_keypad_def)
  have "settings ([After 0] @ kp_plan_from MESSAGES 0
       @ [Evaluate huge_power, Callback_error (Exn ValueError (Lib (digits_limit_text E)))])
      = MESSAGES"
    by (simp add: settings_append kp_plan_settings)
  moreover have "total_delay ([After 0] @ kp_plan_from MESSAGES 0
       @ [Evaluate huge_power, Callback_error (Exn ValueError (Lib (digits_limit_text E)))])
      = 18000"
    using plan_delays(2) [of MESSAGES]
    by (simp add: total_delay_append length_MESSAGES)
  ultimately show ?thesis
    by (simp only: calls simp_thms)
qed

text \<open>
  C7 on the code. The evaluator is called once and its own exceptions are shown as
  text, but a result is not always delivered: for \<open>10**4300\<close> on the keypad, with the
  default limit of 4300 digits, the evaluator succeeds, the conversion of its result to
  text raises \<open>ValueError\<close> in the \<open>else\<close> of the \<open>try\<close>, and the reveal ends with the window
  still showing the last message and all twenty keys disabled.
\<close>

theorem huge_result_is_not_shown:
  "evaluate_expression (with_default_limit E) huge_power = Inr (PyInt (10 ^ 4300))
   \<and> py_str (with_default_limit E) (PyInt (10 ^ 4300))
       = Inl (Exn ValueError (Lib (digits_limit_text E)))
   \<and> evaluations (kp_events (run_sequence_then_eval (with_default_limit E) MESSAGES huge_power
        initial_keypad)) = [huge_power]
   \<and> disp_var (run_sequence_then_eval (with_default_limit E) MESSAGES huge_power initial_keypad)
       = str_of ''Almost there...''
   \<and> buttons (run_sequence_then_eval (with_default_limit E) MESSAGES huge_power initial_keypad)
       = replicate 20 Disabled"
proof -
  let ?E = "with_default_limit E"
  let ?r = "\<lparr>rv_expr = huge_power, rv_i = 0, rv_phase = 0\<rparr>"
  let ?g = "kp_after 0 (set_buttons Disabled initial_keypad)"
  have none: "result_text ?E (rv_expr ?r) = Inl (Exn ValueError (Lib (digits_limit_text E)))"
    by (simp add: no_text_for_huge_power)
  have run: "run_sequence_then_eval ?E MESSAGES huge_power initial_keypad = kp_run ?E MESSAGES ?r ?g"
    by (simp add: run_sequence_then_eval_def)
  have a: "evaluations (kp_events (run_sequence_then_eval ?E MESSAGES huge_power initial_keypad))
      = [huge_power]"
    by (simp add: one_evaluation_per_reveal initial_keypad_def)
  have b: "disp_var (kp_run ?E MESSAGES ?r ?g) = str_of ''Almost there...''"
    using kp_run_without_text_display [OF none, of MESSAGES ?g]
    by (simp add: next_index_def length_MESSAGES last_MESSAGES)
  have c: "buttons (kp_run ?E MESSAGES ?r ?g) = replicate 20 Disabled"
    using kp_run_without_text_buttons [OF none, of MESSAGES ?g]
    by (simp add: kp_after_def set_buttons_def initial_keypad_def)
  show ?thesis
    using a b c eval_huge_power [of ?E] str_huge [of E] by (simp only: run simp_thms)
qed

text \<open>
  What holds of the completion, besides the one call of the evaluator: whenever the text
  of the completion exists, which includes every failure of the evaluator, the run ends
  showing it.
\<close>

lemma evaluator_failure_is_shown:
  assumes "evaluate_expression E expr = Inl e"
  shows "disp_var (run_sequence_then_eval E M expr k) = exn_str E e"
  using keypad_reveal_with_text [of E expr "exn_str E e" M k] assms
  by (simp add: result_text_def)

lemma small_result_is_shown:
  assumes "evaluate_expression E expr = Inr (PyInt n)" and "\<bar>n\<bar> < 10"
  shows "disp_var (run_sequence_then_eval E M expr k)
     = int_str n @ (if n = 5 then thumbs_up else [])"
  using keypad_reveal_with_text [of E expr "int_str n @ (if n = 5 then thumbs_up else [])" M k]
    assms
  by (simp add: result_text_def py_str_small equals_5_def)

text \<open>
  C8, as the code has it. In phase 0 with index \<open>i\<close> a call of \<open>step\<close> shows message \<open>i\<close>,
  not emphasized, and moves to phase 1 at the same index. In phase 1 with index \<open>i\<close> it
  shows message \<open>i + 1\<close>, the next one, emphasized in the two-entry window, and moves to
  phase 0 at index \<open>i + 2\<close>. Every message is shown once.
\<close>

theorem emphasized_step_shows_next_message:
  "(rv_phase r = 0 \<and> rv_i r < length M \<longrightarrow>
      gui_step E M r g =
        (gui_after 2000 (append_display (M ! rv_i r) False g), Some (r\<lparr>rv_phase := 1\<rparr>))
      \<and> kp_step E M r k =
        (kp_after 2000 (disp_set (M ! rv_i r) k), Some (r\<lparr>rv_phase := 1\<rparr>)))
   \<and> (0 < rv_phase r \<and> rv_i r + 1 < length M \<longrightarrow>
      gui_step E M r g =
        (gui_after 2000 (append_display (M ! (rv_i r + 1)) True g),
         Some (r\<lparr>rv_i := rv_i r + 2, rv_phase := 0\<rparr>))
      \<and> kp_step E M r k =
        (kp_after 2000 (disp_set (M ! (rv_i r + 1)) k),
         Some (r\<lparr>rv_i := rv_i r + 2, rv_phase := 0\<rparr>)))"
  by (simp add: gui_step_def kp_step_def Let_def)

theorem emphasized_step_shows_next_message_witness:
  "display_text (fst (gui_step some_library MESSAGES
      \<lparr>rv_expr = str_of ''3 + 4'', rv_i = 0, rv_phase = 0\<rparr> initial_gui)) = str_of ''calculating...''
   \<and> display_bold (fst (gui_step some_library MESSAGES
      \<lparr>rv_expr = str_of ''3 + 4'', rv_i = 0, rv_phase = 0\<rparr> initial_gui)) = False
   \<and> display_text (fst (gui_step some_library MESSAGES
      \<lparr>rv_expr = str_of ''3 + 4'', rv_i = 0, rv_phase = 1\<rparr> initial_gui))
     = str_of ''Going physical with codes...''
   \<and> display_bold (fst (gui_step some_library MESSAGES
      \<lparr>rv_expr = str_of ''3 + 4'', rv_i = 0, rv_phase = 1\<rparr> initial_gui)) = True
   \<and> snd (gui_step some_library MESSAGES
      \<lparr>rv_expr = str_of ''3 + 4'', rv_i = 0, rv_phase = 1\<rparr> initial_gui)
     = Some \<lparr>rv_expr = str_of ''3 + 4'', rv_i = 2, rv_phase = 0\<rparr>"
  using
    emphasized_step_shows_next_message
      [where r = "\<lparr>rv_expr = str_of ''3 + 4'', rv_i = 0, rv_phase = 0\<rparr>" and M = MESSAGES
        and E = some_library and g = initial_gui and k = initial_keypad]
    emphasized_step_shows_next_message
      [where r = "\<lparr>rv_expr = str_of ''3 + 4'', rv_i = 0, rv_phase = 1\<rparr>" and M = MESSAGES
        and E = some_library and g = initial_gui and k = initial_keypad]
  by (simp add: length_MESSAGES gui_after_def append_display_def) (simp add: MESSAGES_def)

text \<open>
  The claim as the specification states it fails at index 0: the emphasized emission
  that follows the plain emission of message 0 carries message 1, which is another text.
\<close>

theorem emphasized_message_counterexample:
  "display_text (fst (gui_step some_library MESSAGES
      \<lparr>rv_expr = str_of ''3 + 4'', rv_i = 0, rv_phase = 1\<rparr> initial_gui)) = MESSAGES ! 1
   \<and> display_bold (fst (gui_step some_library MESSAGES
      \<lparr>rv_expr = str_of ''3 + 4'', rv_i = 0, rv_phase = 1\<rparr> initial_gui)) = True
   \<and> disp_var (fst (kp_step some_library MESSAGES
      \<lparr>rv_expr = str_of ''3 + 4'', rv_i = 0, rv_phase = 1\<rparr> initial_keypad)) = MESSAGES ! 1
   \<and> MESSAGES ! 1 \<noteq> MESSAGES ! 0"
  by (simp add: gui_step_def kp_step_def Let_def length_MESSAGES gui_after_def
      append_display_def kp_after_def disp_set_def)
     (simp add: MESSAGES_def str_of_def ord_def)




text \<open>
  The keypad window enables every key of its list, and the two-entry window what it
  disabled when nothing happens during the reveal, whenever the text of the completion
  exists.
\<close>

lemma keypad_reveal_enables_buttons:
  assumes "result_text E expr = Inr t"
  shows "buttons (run_sequence_then_eval E M expr k) = map (\<lambda>b. Normal) (buttons k)"
  using keypad_reveal_with_text [OF assms] by simp

lemma gui_reveal_enables_controls:
  assumes "start_sequence E g = (g1, Some r)" and "result_text E (rv_expr r) = Inr t"
  shows "\<exists>b. selected g = Some b
     \<and> btn_calc g1 = Disabled \<and> entry_a g1 = Disabled \<and> entry_b g1 = Disabled
     \<and> op_btn g1 = (op_btn g)(b := Disabled)
     \<and> btn_calc (gui_run E M r g1) = Normal \<and> entry_a (gui_run E M r g1) = Normal
     \<and> entry_b (gui_run E M r g1) = Normal
     \<and> op_btn (gui_run E M r g1) = (op_btn g)(b := Normal)"
proof -
  from assms(1) obtain b where b: "selected g = Some b"
    by (cases "selected g") (auto simp: start_sequence_def Let_def)
  from assms(1) b have g1: "btn_calc g1 = Disabled" "entry_a g1 = Disabled" "entry_b g1 = Disabled"
    "op_btn g1 = (op_btn g)(b := Disabled)" "selected g1 = Some b"
    by (auto simp: start_sequence_def Let_def gui_after_def set_selected_btn_def
        split: if_splits)
  show ?thesis
    using gui_run_widgets [OF assms(2), of M g1] by (simp add: b g1)
qed

text \<open>
  C10 on the code, in the two-entry window with a click during the reveal. Plus is
  selected and is disabled when Calculate is clicked; the minus button, still enabled, is
  clicked while the first message is shown; the reveal ends showing 2 and enables
  Calculate, the entries and the minus button. The plus button stays disabled.
\<close>

theorem plus_button_stays_disabled:
  "click_calc E one_plus_one_entered =
     (after_calculate E, Some \<lparr>rv_expr = str_of ''1 + 1'', rv_i = 0, rv_phase = 0\<rparr>)
   \<and> op_btn (after_calculate E) plus_btn = Disabled
   \<and> op_btn (after_calculate E) minus_btn = Normal
   \<and> gui_step E MESSAGES \<lparr>rv_expr = str_of ''1 + 1'', rv_i = 0, rv_phase = 0\<rparr> (after_calculate E) =
     (after_first_message E, Some \<lparr>rv_expr = str_of ''1 + 1'', rv_i = 0, rv_phase = 1\<rparr>)
   \<and> selected (after_minus_click E) = Some minus_btn
   \<and> display_text (after_reveal E) = str_of ''2''
   \<and> btn_calc (after_reveal E) = Normal
   \<and> entry_a (after_reveal E) = Normal
   \<and> entry_b (after_reveal E) = Normal
   \<and> op_btn (after_reveal E) minus_btn = Normal
   \<and> op_btn (after_reveal E) plus_btn = Disabled"
proof -
  let ?r0 = "\<lparr>rv_expr = str_of ''1 + 1'', rv_i = 0, rv_phase = 0\<rparr>"
  let ?r1 = "\<lparr>rv_expr = str_of ''1 + 1'', rv_i = 0, rv_phase = 1\<rparr>"
  have entered: "selected one_plus_one_entered = Some plus_btn"
    "a_text one_plus_one_entered = str_of ''1''" "b_text one_plus_one_entered = str_of ''1''"
    "btn_calc one_plus_one_entered = Normal" "op_btn one_plus_one_entered = (\<lambda>b. Normal)"
    by (simp_all add: one_plus_one_entered_def click_op_def select_op_def type_a_def type_b_def
        initial_gui_def)
  have strip1: "py_strip (str_of ''1'') = str_of ''1''"
    by (simp add: strip_eval)
  have ok: "float_ok E (str_of ''1'')"
    by (simp add: float_ok_def str_of_def ord_def is_digit_def)
  have expr: "str_of ''1'' @ str_of '' '' @ op_text plus_btn @ str_of '' '' @ str_of ''1''
      = str_of ''1 + 1''"
    by (simp add: str_of_def op_text_def)
  have ne: "str_of ''1'' \<noteq> []"
    by (simp add: str_of_def)
  have calc: "click_calc E one_plus_one_entered =
     (gui_after 0 (set_selected_btn Disabled
        (one_plus_one_entered\<lparr>btn_calc := Disabled, entry_a := Disabled, entry_b := Disabled\<rparr>)),
      Some ?r0)"
    by (simp add: click_calc_def start_sequence_def Let_def entered strip1 ok expr ne)
  have a: "click_calc E one_plus_one_entered = (after_calculate E, Some ?r0)"
    by (simp add: after_calculate_def calc)
  have g1: "op_btn (after_calculate E) = (\<lambda>b. Normal)(plus_btn := Disabled)"
    "selected (after_calculate E) = Some plus_btn"
    by (simp_all add: after_calculate_def calc gui_after_def set_selected_btn_def entered)
  have step: "gui_step E MESSAGES ?r0 (after_calculate E) =
     (gui_after 2000 (append_display (MESSAGES ! 0) False (after_calculate E)), Some ?r1)"
    by (simp add: gui_step_def Let_def length_MESSAGES)
  have b: "gui_step E MESSAGES ?r0 (after_calculate E) = (after_first_message E, Some ?r1)"
    by (simp add: after_first_message_def step)
  have g2: "op_btn (after_first_message E) = (\<lambda>b. Normal)(plus_btn := Disabled)"
    by (simp add: after_first_message_def step gui_after_def append_display_def g1)
  have g3: "op_btn (after_minus_click E) = (\<lambda>b. Normal)(plus_btn := Disabled)"
    "selected (after_minus_click E) = Some minus_btn"
    by (simp_all add: after_minus_click_def click_op_def select_op_def g2)
  have parse: "core_parse (str_of ''1 + 1'') = Some (BinOp (Constant (CInt 1)) Add (Constant (CInt 1)))"
    by code_simp
  have plain: "py_strip (str_of ''1 + 1'') \<noteq> str_of ''2 + 2''
      \<and> py_strip (str_of ''1 + 1'') \<noteq> str_of ''2+2''"
    by (simp add: strip_eval)
  have "evaluate_expression E (str_of ''1 + 1'') = Inr (PyInt 2)"
    by (simp add: evaluate_eval plain parse arith_eval)
  then have shown: "result_text E (rv_expr ?r1) = Inr (str_of ''2'')"
    by (simp add: result_text_def py_str_small equals_5_def int_str_digits)
  have c: "display_text (after_reveal E) = str_of ''2''"
    using gui_run_display [OF shown, of MESSAGES "after_minus_click E"]
    by (simp add: after_reveal_def)
  have d: "btn_calc (after_reveal E) = Normal" "entry_a (after_reveal E) = Normal"
    "entry_b (after_reveal E) = Normal" "op_btn (after_reveal E) minus_btn = Normal"
    "op_btn (after_reveal E) plus_btn = Disabled"
    using gui_run_widgets [OF shown, of MESSAGES "after_minus_click E"]
    by (simp_all add: after_reveal_def g3)
  have e: "op_btn (after_calculate E) plus_btn = Disabled"
    "op_btn (after_calculate E) minus_btn = Normal"
    by (simp_all add: g1)
  show ?thesis
    using a b c d e g3(2) by blast
qed

end
